theory Spec2Isabelle
  imports
    Main
    "HOL-Library.Char_ord"
    "HOL-Library.List_Lexorder"
    "HOL-Library.Product_Lexorder"
    "HOL-Library.AList"
begin

section \<open>agl\_to\_nem12: conversion of AGL usage rows to NEM12 records\<close>

text \<open>
  A shallow embedding of \<^verbatim>\<open>agl_to_nem12.py\<close>. Python \<^verbatim>\<open>str\<close> values are
  modelled as \<^typ>\<open>string\<close>, each \<^typ>\<open>char\<close> read as one ASCII code point; Python
  \<^verbatim>\<open>int\<close> as \<^typ>\<open>int\<close> (or \<^typ>\<open>nat\<close> for counters that only grow from zero).
  The first part models the pieces of the Python library the script calls
  (\<^verbatim>\<open>str.split\<close>, \<^verbatim>\<open>str.upper\<close>, \<^verbatim>\<open>re.match\<close> on the one pattern used,
  \<^verbatim>\<open>datetime.strptime\<close> and \<^verbatim>\<open>strftime\<close> on the formats used, \<^verbatim>\<open>float\<close> and
  the \<^verbatim>\<open>.3f\<close> format); the second part follows the script function by function.
\<close>

subsection \<open>Characters and strings\<close>

definition is_digit :: "char \<Rightarrow> bool" where
  "is_digit c = (c \<in> set ''0123456789'')"

definition digit_val :: "char \<Rightarrow> nat" where
  "digit_val c = of_char c - 48"

definition digit_char :: "nat \<Rightarrow> char" where
  "digit_char n = ''0123456789'' ! n"

definition nat_of_digits :: "string \<Rightarrow> nat" where
  "nat_of_digits s = foldl (\<lambda>a c. 10 * a + digit_val c) 0 s"

text \<open>\<^verbatim>\<open>str(n)\<close> for a non-negative integer.\<close>

fun str_nat :: "nat \<Rightarrow> string" where
  "str_nat n = (if n < 10 then [digit_char n] else str_nat (n div 10) @ [digit_char (n mod 10)])"

declare str_nat.simps [simp del]

text \<open>Zero padding to a width, as \<^verbatim>\<open>%02d\<close> and \<^verbatim>\<open>%04d\<close> do.\<close>

definition zero_pad :: "nat \<Rightarrow> nat \<Rightarrow> string" where
  "zero_pad w n = replicate (w - length (str_nat n)) (CHR ''0'') @ str_nat n"

definition upper_char :: "char \<Rightarrow> char" where
  "upper_char c =
     (case map_of (zip ''abcdefghijklmnopqrstuvwxyz'' ''ABCDEFGHIJKLMNOPQRSTUVWXYZ'') c of
        Some u \<Rightarrow> u | None \<Rightarrow> c)"

definition lower_char :: "char \<Rightarrow> char" where
  "lower_char c =
     (case map_of (zip ''ABCDEFGHIJKLMNOPQRSTUVWXYZ'' ''abcdefghijklmnopqrstuvwxyz'') c of
        Some l \<Rightarrow> l | None \<Rightarrow> c)"

definition py_upper :: "string \<Rightarrow> string" where
  "py_upper s = map upper_char s"

definition py_lower :: "string \<Rightarrow> string" where
  "py_lower s = map lower_char s"

definition startswith :: "string \<Rightarrow> string \<Rightarrow> bool" where
  "startswith s p = (take (length p) s = p)"

text \<open>\<^verbatim>\<open>s.split(c)\<close> for a one-character separator: never empty.\<close>

fun py_split :: "char \<Rightarrow> string \<Rightarrow> string list" where
  "py_split c [] = [[]]"
| "py_split c (x # xs) =
     (if x = c then [] # py_split c xs
      else (case py_split c xs of [] \<Rightarrow> [[x]] | w # ws \<Rightarrow> (x # w) # ws))"

text \<open>
  The whitespace \<^verbatim>\<open>float\<close> strips (C's \<^verbatim>\<open>isspace\<close>), and the ASCII characters
  that \<^verbatim>\<open>\s\<close> of a \<^verbatim>\<open>str\<close> pattern matches (the former and the four separators
  \<^verbatim>\<open>\x1c\<close> to \<^verbatim>\<open>\x1f\<close>).
\<close>

definition is_space :: "char \<Rightarrow> bool" where
  "is_space c = (c \<in> set [CHR '' '', CHR 0x09, CHR 0x0A, CHR 0x0B, CHR 0x0C, CHR 0x0D])"

definition re_space :: "char \<Rightarrow> bool" where
  "re_space c = (is_space c \<or> c \<in> set [CHR 0x1C, CHR 0x1D, CHR 0x1E, CHR 0x1F])"

definition py_strip :: "string \<Rightarrow> string" where
  "py_strip s = rev (dropWhile is_space (rev (dropWhile is_space s)))"

subsection \<open>Dates and times\<close>

record datetime =
  year :: int
  month :: int
  day :: int
  hour :: int
  minute :: int
  second :: int

text \<open>A \<^verbatim>\<open>date\<close> as (year, month, day): the product order is the calendar's.\<close>

type_synonym date = "int \<times> int \<times> int"

definition date_of :: "datetime \<Rightarrow> date" where
  "date_of d = (year d, month d, day d)"

definition is_leap :: "int \<Rightarrow> bool" where
  "is_leap y = (y mod 4 = 0 \<and> (y mod 100 \<noteq> 0 \<or> y mod 400 = 0))"

definition days_in_month :: "int \<Rightarrow> int \<Rightarrow> int" where
  "days_in_month y m =
     (if m = 2 then (if is_leap y then 29 else 28)
      else if m \<in> {4, 6, 9, 11} then 30 else 31)"

text \<open>
  The fields of \<^verbatim>\<open>'%d/%m/%Y %I:%M:%S %p'\<close>, as the regular expressions that
  \<^verbatim>\<open>_strptime\<close> builds for the directives:
  \<^verbatim>\<open>%d\<close> is \<^verbatim>\<open>3[0-1]|[1-2]\d|0[1-9]|[1-9]| [1-9]\<close>,
  \<^verbatim>\<open>%m\<close> and \<^verbatim>\<open>%I\<close> are \<^verbatim>\<open>1[0-2]|0[1-9]|[1-9]\<close>,
  \<^verbatim>\<open>%Y\<close> is \<^verbatim>\<open>\d\d\d\d\<close>, \<^verbatim>\<open>%M\<close> is \<^verbatim>\<open>[0-5]\d|\d\<close>,
  \<^verbatim>\<open>%S\<close> is \<^verbatim>\<open>6[0-1]|[0-5]\d|\d\<close>, \<^verbatim>\<open>%p\<close> is \<^verbatim>\<open>am|pm\<close> without regard
  to case, and a blank of the format is \<^verbatim>\<open>\s+\<close>. Each field ends at a character that
  no field can hold, so a field is the text up to its separator.
\<close>

definition all_digits :: "string \<Rightarrow> bool" where
  "all_digits s = list_all is_digit s"

definition field_d :: "string \<Rightarrow> int option" where
  "field_d s =
     (if length s = 2 \<and> all_digits s \<and> 1 \<le> nat_of_digits s \<and> nat_of_digits s \<le> 31
        then Some (int (nat_of_digits s))
      else if length s = 1 \<and> all_digits s \<and> 1 \<le> nat_of_digits s
        then Some (int (nat_of_digits s))
      else if length s = 2 \<and> hd s = CHR '' '' \<and> all_digits (tl s) \<and> 1 \<le> nat_of_digits (tl s)
        then Some (int (nat_of_digits (tl s)))
      else None)"

definition field_m :: "string \<Rightarrow> int option" where
  "field_m s =
     (if length s = 2 \<and> all_digits s \<and> 1 \<le> nat_of_digits s \<and> nat_of_digits s \<le> 12
        then Some (int (nat_of_digits s))
      else if length s = 1 \<and> all_digits s \<and> 1 \<le> nat_of_digits s
        then Some (int (nat_of_digits s))
      else None)"

definition field_Y :: "string \<Rightarrow> int option" where
  "field_Y s = (if length s = 4 \<and> all_digits s then Some (int (nat_of_digits s)) else None)"

definition field_M :: "string \<Rightarrow> int option" where
  "field_M s =
     (if length s = 2 \<and> all_digits s \<and> nat_of_digits s \<le> 59
        then Some (int (nat_of_digits s))
      else if length s = 1 \<and> all_digits s then Some (int (nat_of_digits s))
      else None)"

definition field_S :: "string \<Rightarrow> int option" where
  "field_S s =
     (if length s = 2 \<and> all_digits s \<and> nat_of_digits s \<le> 61
        then Some (int (nat_of_digits s))
      else if length s = 1 \<and> all_digits s then Some (int (nat_of_digits s))
      else None)"

definition field_p :: "string \<Rightarrow> bool option" where
  "field_p s =
     (if py_lower s = ''am'' then Some False
      else if py_lower s = ''pm'' then Some True
      else None)"

text \<open>The text before the first \<open>c\<close> and the text after it; \<open>None\<close> without a \<open>c\<close>.\<close>

definition upto_char :: "char \<Rightarrow> string \<Rightarrow> (string \<times> string) option" where
  "upto_char c s =
     (if c \<in> set s then Some (takeWhile (\<lambda>x. x \<noteq> c) s, tl (dropWhile (\<lambda>x. x \<noteq> c) s))
      else None)"

text \<open>One or more blanks, then the rest.\<close>

definition skip_spaces :: "string \<Rightarrow> string option" where
  "skip_spaces s =
     (case s of [] \<Rightarrow> None
      | c # r \<Rightarrow> if re_space c then Some (dropWhile re_space r) else None)"

text \<open>
  \<^verbatim>\<open>datetime.strptime(s, '%d/%m/%Y %I:%M:%S %p')\<close>; \<open>None\<close> is \<^verbatim>\<open>ValueError\<close>.
  After the match the hour is put on the 24 hour clock, and the \<^verbatim>\<open>datetime\<close>
  constructor refuses year 0, a day the month does not have and seconds above 59.
\<close>

definition hour24 :: "int \<Rightarrow> bool \<Rightarrow> int" where
  "hour24 h pm = (if pm then (if h = 12 then 12 else h + 12) else (if h = 12 then 0 else h))"

definition make_datetime :: "int \<Rightarrow> int \<Rightarrow> int \<Rightarrow> int \<Rightarrow> int \<Rightarrow> int \<Rightarrow> datetime option" where
  "make_datetime y mo d h mi s =
     (if 1 \<le> y \<and> y \<le> 9999 \<and> 1 \<le> mo \<and> mo \<le> 12 \<and> 1 \<le> d \<and> d \<le> days_in_month y mo
         \<and> 0 \<le> h \<and> h \<le> 23 \<and> 0 \<le> mi \<and> mi \<le> 59 \<and> 0 \<le> s \<and> s \<le> 59
      then Some \<lparr>year = y, month = mo, day = d, hour = h, minute = mi, second = s\<rparr>
      else None)"

definition py_strptime :: "string \<Rightarrow> datetime option" where
  "py_strptime s =
     (case upto_char (CHR ''/'') s of None \<Rightarrow> None | Some (sd, r1) \<Rightarrow>
      case upto_char (CHR ''/'') r1 of None \<Rightarrow> None | Some (sm, r2) \<Rightarrow>
      case skip_spaces (drop 4 r2) of None \<Rightarrow> None | Some r3 \<Rightarrow>
      case upto_char (CHR '':'') r3 of None \<Rightarrow> None | Some (sI, r4) \<Rightarrow>
      case upto_char (CHR '':'') r4 of None \<Rightarrow> None | Some (sM, r5) \<Rightarrow>
      case skip_spaces (dropWhile is_digit r5) of None \<Rightarrow> None | Some sp \<Rightarrow>
      case (field_d sd, field_m sm, field_Y (take 4 r2), field_m sI, field_M sM,
            field_S (takeWhile is_digit r5), field_p sp) of
        (Some d, Some mo, Some y, Some h, Some mi, Some sec, Some pm) \<Rightarrow>
           make_datetime y mo d (hour24 h pm) mi sec
      | _ \<Rightarrow> None)"

text \<open>\<^verbatim>\<open>strftime('%Y%m%d')\<close> and \<^verbatim>\<open>strftime('%Y%m%d%H%M%S')\<close>, the year on four digits.\<close>

definition strftime_Ymd :: "date \<Rightarrow> string" where
  "strftime_Ymd d =
     (case d of (y, m, dd) \<Rightarrow> zero_pad 4 (nat y) @ zero_pad 2 (nat m) @ zero_pad 2 (nat dd))"

definition strftime_YmdHMS :: "datetime \<Rightarrow> string" where
  "strftime_YmdHMS t =
     strftime_Ymd (date_of t) @ zero_pad 2 (nat (hour t)) @ zero_pad 2 (nat (minute t))
       @ zero_pad 2 (nat (second t))"

subsection \<open>Floating point numbers\<close>

text \<open>
  A Python \<^verbatim>\<open>float\<close> is an IEEE 754 double: a finite one is a sign, a mantissa \<open>m\<close>
  and a binary exponent \<open>e\<close>, of value \<open>m * 2 ^ e\<close>; zero keeps its sign.
\<close>

datatype pyfloat = Finite bool nat int | Infinity bool | NaN

text \<open>The literal \<^verbatim>\<open>0.0\<close>.\<close>

definition float_zero :: pyfloat where
  "float_zero = Finite False 0 0"

text \<open>The quotient \<open>a / b\<close> rounded to the nearest integer, a tie to the even one.\<close>

definition round_half_even :: "nat \<Rightarrow> nat \<Rightarrow> nat" where
  "round_half_even a b =
     (let q = a div b; r = a mod b
      in if 2 * r < b then q else if b < 2 * r then q + 1 else if even q then q else q + 1)"

fun bit_length :: "nat \<Rightarrow> nat" where
  "bit_length n = (if n = 0 then 0 else Suc (bit_length (n div 2)))"

declare bit_length.simps [simp del]

text \<open>
  The double nearest to \<open>n / d\<close> (\<open>d > 0\<close>), ties to even: 53 bits of mantissa above
  \<open>2 ^ -1022\<close>, multiples of \<open>2 ^ -1074\<close> below, infinity from \<open>2 ^ 1024\<close> on.
\<close>

definition floor_log2 :: "nat \<Rightarrow> nat \<Rightarrow> int" where
  "floor_log2 n d =
     (let k = int (bit_length n) - int (bit_length d)
      in if (if 0 \<le> k then d * 2 ^ nat k \<le> n else d \<le> n * 2 ^ nat (- k)) then k else k - 1)"

definition round_to_double :: "bool \<Rightarrow> nat \<Rightarrow> nat \<Rightarrow> pyfloat" where
  "round_to_double neg n d =
     (if n = 0 then Finite neg 0 0
      else
        let ex = max (floor_log2 n d) (- 1022) - 52;
            m = (if ex < 0 then round_half_even (n * 2 ^ nat (- ex)) d
                 else round_half_even n (d * 2 ^ nat ex))
        in if 971 < ex \<or> (ex = 971 \<and> 2 ^ 53 \<le> m) then Infinity neg else Finite neg m ex)"

text \<open>
  \<^verbatim>\<open>float(s)\<close> for a \<^verbatim>\<open>str\<close>; \<open>None\<close> is \<^verbatim>\<open>ValueError\<close>. Blanks are stripped at
  both ends; an underscore may stand only between two digits; then comes an optional
  sign and either \<^verbatim>\<open>inf\<close>, \<^verbatim>\<open>infinity\<close> or \<^verbatim>\<open>nan\<close> in any case, or a decimal
  numeral with at least one digit, an optional point and an optional exponent.
\<close>

fun drop_underscores :: "char \<Rightarrow> string \<Rightarrow> string option" where
  "drop_underscores prev [] = (if prev = CHR ''_'' then None else Some [])"
| "drop_underscores prev (c # cs) =
     (if c = CHR ''_'' then (if is_digit prev then drop_underscores c cs else None)
      else if prev = CHR ''_'' \<and> \<not> is_digit c then None
      else map_option ((#) c) (drop_underscores c cs))"

definition parse_sign :: "string \<Rightarrow> bool \<times> string" where
  "parse_sign s =
     (case s of [] \<Rightarrow> (False, [])
      | c # r \<Rightarrow> if c = CHR ''-'' then (True, r) else if c = CHR ''+'' then (False, r)
                else (False, s))"

text \<open>The exponent part: empty, or \<^verbatim>\<open>e\<close>, an optional sign and digits.\<close>

definition parse_exponent :: "string \<Rightarrow> int option" where
  "parse_exponent s =
     (case s of [] \<Rightarrow> Some 0
      | c # r \<Rightarrow>
          if c = CHR ''e'' \<or> c = CHR ''E'' then
            (case parse_sign r of (neg, ds) \<Rightarrow>
               if ds \<noteq> [] \<and> all_digits ds
               then Some (if neg then - int (nat_of_digits ds) else int (nat_of_digits ds))
               else None)
          else None)"

text \<open>A decimal numeral as (digits of the mantissa read as a number, power of ten).\<close>

definition parse_decimal :: "string \<Rightarrow> (nat \<times> int) option" where
  "parse_decimal s =
     (let ip = takeWhile is_digit s; r1 = dropWhile is_digit s;
          has_point = (r1 \<noteq> [] \<and> hd r1 = CHR ''.'');
          fp = (if has_point then takeWhile is_digit (tl r1) else []);
          r2 = (if has_point then dropWhile is_digit (tl r1) else r1)
      in if ip = [] \<and> fp = [] then None
         else (case parse_exponent r2 of None \<Rightarrow> None
               | Some e \<Rightarrow> Some (nat_of_digits (ip @ fp), e - int (length fp))))"

definition py_float :: "string \<Rightarrow> pyfloat option" where
  "py_float s =
     (case drop_underscores (CHR 0x00) (py_strip s) of None \<Rightarrow> None
      | Some t \<Rightarrow>
          (case parse_sign t of (neg, r) \<Rightarrow>
             if py_lower r = ''inf'' \<or> py_lower r = ''infinity'' then Some (Infinity neg)
             else if py_lower r = ''nan'' then Some NaN
             else (case parse_decimal r of None \<Rightarrow> None
                   | Some (m, e) \<Rightarrow>
                       Some (if 0 \<le> e then round_to_double neg (m * 10 ^ nat e) 1
                             else round_to_double neg m (10 ^ nat (- e))))))"

text \<open>
  \<^verbatim>\<open>f"{val:.3f}"\<close>: the value rounded to thousandths (a tie to the even one), printed
  with its sign, its integer part and three decimals; \<^verbatim>\<open>inf\<close> and \<^verbatim>\<open>nan\<close> by name.
\<close>

definition thousandths :: "nat \<Rightarrow> int \<Rightarrow> nat" where
  "thousandths m e =
     (if 0 \<le> e then m * 1000 * 2 ^ nat e else round_half_even (m * 1000) (2 ^ nat (- e)))"

definition format_3f :: "pyfloat \<Rightarrow> string" where
  "format_3f v =
     (case v of
        Finite neg m e \<Rightarrow>
          (if neg then ''-'' else []) @ str_nat (thousandths m e div 1000) @ ''.''
            @ zero_pad 3 (thousandths m e mod 1000)
      | Infinity neg \<Rightarrow> (if neg then ''-inf'' else ''inf'')
      | NaN \<Rightarrow> ''nan'')"

subsection \<open>Lists and dictionaries\<close>

datatype py_error = IndexError | KeyError

text \<open>
  The position an index of a list of length \<open>n\<close> stands for (a negative one counts from
  the end), then \<^verbatim>\<open>xs[i] = v\<close> and \<^verbatim>\<open>xs[i]\<close>.
\<close>

definition py_index :: "nat \<Rightarrow> int \<Rightarrow> nat option" where
  "py_index n i =
     (if 0 \<le> i \<and> i < int n then Some (nat i)
      else if - int n \<le> i \<and> i < 0 then Some (nat (int n + i))
      else None)"

definition set_item :: "'a list \<Rightarrow> int \<Rightarrow> 'a \<Rightarrow> py_error + 'a list" where
  "set_item xs i v =
     (case py_index (length xs) i of None \<Rightarrow> Inl IndexError | Some j \<Rightarrow> Inr (xs[j := v]))"

definition get_item :: "'a list \<Rightarrow> int \<Rightarrow> py_error + 'a" where
  "get_item xs i =
     (case py_index (length xs) i of None \<Rightarrow> Inl IndexError | Some j \<Rightarrow> Inr (xs ! j))"

text \<open>
  A \<^verbatim>\<open>dict\<close> is an association list in insertion order with one entry per key;
  \<open>get_default\<close> is the read of a \<^verbatim>\<open>defaultdict\<close> (the entry, or a fresh default).
\<close>

type_synonym ('k, 'v) dict = "('k \<times> 'v) list"

definition get_default :: "('k, 'v) dict \<Rightarrow> 'k \<Rightarrow> 'v \<Rightarrow> 'v" where
  "get_default d k dflt = (case map_of d k of Some v \<Rightarrow> v | None \<Rightarrow> dflt)"

definition keys :: "('k, 'v) dict \<Rightarrow> 'k list" where
  "keys d = map fst d"

subsection \<open>Configuration\<close>

definition NEM12_VERSION :: string where "NEM12_VERSION = ''NEM12''"
definition FROM_PARTICIPANT :: string where "FROM_PARTICIPANT = ''AGL''"
definition TO_PARTICIPANT :: string where "TO_PARTICIPANT = ''Converter''"
definition DEFAULT_UOM :: string where "DEFAULT_UOM = ''kWh''"

definition QUALITY_MAP :: "(string, string) dict" where
  "QUALITY_MAP = [(''A'', ''A''), (''F'', ''F''), (''E'', ''E''), (''S'', ''S''), (''N'', ''N'')]"

definition DEFAULT_QUALITY :: string where "DEFAULT_QUALITY = ''E''"

text \<open>The two globals the command line sets before the conversion runs.\<close>

record config =
  INTERVAL_LENGTH :: int
  INTERVALS_PER_DAY :: int

subsection \<open>Helper functions\<close>

definition parse_agl_datetime :: "string \<Rightarrow> datetime option" where
  "parse_agl_datetime dt_str = (if dt_str = [] then None else py_strptime dt_str)"

definition get_interval_index :: "config \<Rightarrow> datetime option \<Rightarrow> int \<Rightarrow> int option" where
  "get_interval_index cfg dt_obj interval_length_minutes =
     (case dt_obj of None \<Rightarrow> None
      | Some dt \<Rightarrow>
          if interval_length_minutes \<le> 0 then None
          else
            let minutes_past_midnight = hour dt * 60 + minute dt;
                index = minutes_past_midnight div interval_length_minutes
            in if 0 \<le> index \<and> index < INTERVALS_PER_DAY cfg then Some index else None)"

definition format_nem12_date :: "date \<Rightarrow> string" where
  "format_nem12_date date_obj = strftime_Ymd date_obj"

definition format_nem12_datetime :: "datetime \<Rightarrow> string" where
  "format_nem12_datetime dt_obj = strftime_YmdHMS dt_obj"

text \<open>
  \<^verbatim>\<open>re.match(r'^[EBVQKNeqvkn]\d+$', suffix)\<close>: one character of the class, then
  digits to the end, where \<^verbatim>\<open>$\<close> also matches before a last newline.
\<close>

definition standard_pattern :: "string \<Rightarrow> bool" where
  "standard_pattern suffix =
     (case suffix of [] \<Rightarrow> False
      | c # r \<Rightarrow>
          c \<in> set ''EBVQKNeqvkn'' \<and>
          (let ds = (if r \<noteq> [] \<and> last r = CHR 0x0A then butlast r else r)
           in ds \<noteq> [] \<and> all_digits ds))"

definition get_suffix_from_register :: "string \<Rightarrow> string option \<times> bool" where
  "get_suffix_from_register register_code =
     (if register_code = [] then (None, False)
      else if CHR ''#'' \<in> set register_code then
        (let suffix = last (py_split (CHR ''#'') register_code)
         in if suffix = [] then (None, False) else (Some suffix, standard_pattern suffix))
      else (None, False))"

definition determine_day_quality :: "string list \<Rightarrow> string" where
  "determine_day_quality interval_qualities =
     (let present_qualities = set (filter (\<lambda>q. q \<noteq> []) interval_qualities)
      in if present_qualities = {} then DEFAULT_QUALITY
         else if ''N'' \<in> present_qualities then ''N''
         else if ''S'' \<in> present_qualities then ''S''
         else if ''E'' \<in> present_qualities then ''E''
         else if ''F'' \<in> present_qualities then ''F''
         else if ''A'' \<in> present_qualities then ''A''
         else DEFAULT_QUALITY)"

subsection \<open>The reader\<close>

text \<open>One row of the \<^verbatim>\<open>DictReader\<close>: \<open>None\<close> where the line is too short for the column.\<close>

record row =
  NMI :: "string option"
  RegisterCode :: "string option"
  StartDate :: "string option"
  ProfileReadValue :: "string option"
  QualityFlag :: "string option"
  DeviceNumber :: "string option"

record day_data =
  intervals :: "pyfloat option list"
  quality :: "string list"

record details =
  NMISuffix :: string
  MDMDataStreamIdentifier :: string
  MeterSerialNumber :: string
  UOM :: string
  IntervalLength :: int
  NextScheduledReadDate :: string

text \<open>What the script prints, the interpolated values as arguments.\<close>

datatype message =
    Reading_from string
  | Expecting int int
  | Missing_headers "string list" "string list option"
  | Suffix_warning string string
  | File_not_found string
  | Unexpected_reading
  | Skipped_info nat
  | No_valid_rows
  | Finished_reading nat nat
  | Found_NMIs nat
  | Writing_to string
  | Truncating_warning string
  | Inconsistency string string string int nat
  | Success string
  | Unexpected_writing

type_synonym data_t = "(string, (string, (date, day_data) dict) dict) dict"

record reader_state =
  data :: data_t
  nmi_details :: "(string, (string, details) dict) dict"
  warned_suffixes :: "(string \<times> string) set"
  row_count :: nat
  processed_rows :: nat
  skipped_rows :: nat
  warnings :: "message list"

definition init_state :: reader_state where
  "init_state =
     \<lparr>data = [], nmi_details = [], warned_suffixes = {}, row_count = 0, processed_rows = 0,
      skipped_rows = 0, warnings = []\<rparr>"

text \<open>The default of the innermost \<^verbatim>\<open>defaultdict\<close>: a day of empty slots.\<close>

definition new_day_data :: "config \<Rightarrow> day_data" where
  "new_day_data cfg =
     \<lparr>intervals = replicate (nat (INTERVALS_PER_DAY cfg)) None,
      quality = replicate (nat (INTERVALS_PER_DAY cfg)) []\<rparr>"

text \<open>
  \<^verbatim>\<open>day_data = data[nmi][suffix][interval_date]\<close> and the two slot assignments; the
  three levels are created on the way when they are missing.
\<close>

definition store_reading ::
  "config \<Rightarrow> data_t \<Rightarrow> string \<Rightarrow> string \<Rightarrow> date \<Rightarrow> int \<Rightarrow> pyfloat \<Rightarrow> string \<Rightarrow> py_error + data_t"
where
  "store_reading cfg d nmi suffix interval_date interval_index val quality_nem12 =
     (let by_suffix = get_default d nmi [];
          by_date = get_default by_suffix suffix [];
          dd = get_default by_date interval_date (new_day_data cfg)
      in case set_item (intervals dd) interval_index (Some val) of
           Inl e \<Rightarrow> Inl e
         | Inr iv \<Rightarrow>
             (case set_item (quality dd) interval_index quality_nem12 of
                Inl e \<Rightarrow> Inl e
              | Inr qs \<Rightarrow>
                  Inr (AList.update nmi
                        (AList.update suffix
                          (AList.update interval_date \<lparr>intervals = iv, quality = qs\<rparr> by_date)
                          by_suffix)
                        d)))"

text \<open>The stream kind, from the first character of the suffix in upper case.\<close>

definition mdm_data_stream_id :: "string \<Rightarrow> string" where
  "mdm_data_stream_id suffix =
     (let s_upper = py_upper suffix
      in if startswith s_upper ''B'' then ''GENERATION''
         else if startswith s_upper ''E'' \<or> startswith s_upper ''V'' then ''CONSUMPTION''
         else if startswith s_upper ''Q'' \<or> startswith s_upper ''K'' then ''REACTIVE''
         else ''INTERVAL'')"

text \<open>The block run for a suffix that \<^verbatim>\<open>nmi_details[nmi]\<close> does not hold yet.\<close>

definition record_details ::
  "config \<Rightarrow> reader_state \<Rightarrow> string \<Rightarrow> string \<Rightarrow> bool \<Rightarrow> string \<Rightarrow> reader_state"
where
  "record_details cfg st nmi suffix is_standard_pattern device_num =
     (let known = get_default (nmi_details st) nmi []
      in if suffix \<in> set (keys known) then st
         else
           let warn = (\<not> is_standard_pattern \<and> (nmi, suffix) \<notin> warned_suffixes st);
               entry = \<lparr>NMISuffix = suffix, MDMDataStreamIdentifier = mdm_data_stream_id suffix,
                        MeterSerialNumber = device_num, UOM = DEFAULT_UOM,
                        IntervalLength = INTERVAL_LENGTH cfg, NextScheduledReadDate = []\<rparr>
           in st\<lparr>warnings := (if warn then warnings st @ [Suffix_warning nmi suffix]
                               else warnings st),
                  warned_suffixes := (if warn then insert (nmi, suffix) (warned_suffixes st)
                                      else warned_suffixes st),
                  nmi_details := AList.update nmi (AList.update suffix entry known)
                                   (nmi_details st)\<rparr>)"

definition truthy :: "string option \<Rightarrow> bool" where
  "truthy x = (case x of None \<Rightarrow> False | Some s \<Rightarrow> s \<noteq> [])"

text \<open>\<^verbatim>\<open>skipped_rows += 1; continue\<close>\<close>

definition skip_row :: "reader_state \<Rightarrow> reader_state" where
  "skip_row st = st\<lparr>skipped_rows := skipped_rows st + 1\<rparr>"

text \<open>
  The value and quality of a row: \<^verbatim>\<open>float(value_str)\<close> and the lookup in
  \<^verbatim>\<open>QUALITY_MAP\<close>, or \<^verbatim>\<open>0.0\<close> and \<^verbatim>\<open>'N'\<close> when \<^verbatim>\<open>float\<close> raises.
\<close>

definition value_and_quality :: "string \<Rightarrow> string \<Rightarrow> pyfloat \<times> string" where
  "value_and_quality value_str quality_agl =
     (case py_float value_str of
        Some v \<Rightarrow> (v, get_default QUALITY_MAP quality_agl DEFAULT_QUALITY)
      | None \<Rightarrow> (float_zero, ''N''))"

text \<open>
  The body of the loop over the rows. \<open>Inl\<close> is an exception, with the state it leaves;
  the caller ends the run on it.
\<close>

definition process_row ::
  "config \<Rightarrow> reader_state \<Rightarrow> row \<Rightarrow> (py_error \<times> reader_state) + reader_state"
where
  "process_row cfg st0 r =
     (let st = st0\<lparr>row_count := row_count st0 + 1\<rparr>
      in if \<not> (truthy (NMI r) \<and> truthy (RegisterCode r) \<and> truthy (StartDate r)
                \<and> ProfileReadValue r \<noteq> None \<and> truthy (QualityFlag r)
                \<and> truthy (DeviceNumber r))
         then Inr (skip_row st)
         else
           (case (NMI r, RegisterCode r, StartDate r, ProfileReadValue r, QualityFlag r,
                  DeviceNumber r) of
              (Some nmi, Some register_code, Some start_date_str, Some value_str,
               Some quality_agl, Some device_num) \<Rightarrow>
                (case parse_agl_datetime start_date_str of
                   None \<Rightarrow> Inr (skip_row st)
                 | Some start_dt \<Rightarrow>
                     (case get_interval_index cfg (Some start_dt) (INTERVAL_LENGTH cfg) of
                        None \<Rightarrow> Inr (skip_row st)
                      | Some interval_index \<Rightarrow>
                          (case get_suffix_from_register register_code of
                             (None, _) \<Rightarrow> Inr (skip_row st)
                           | (Some suffix, is_standard_pattern) \<Rightarrow>
                               if suffix = [] then Inr (skip_row st)
                               else
                                 (case value_and_quality value_str quality_agl of
                                    (val, quality_nem12) \<Rightarrow>
                                      (case store_reading cfg (data st) nmi suffix
                                              (date_of start_dt) interval_index val
                                              quality_nem12 of
                                         Inl e \<Rightarrow> Inl (e, st)
                                       | Inr d \<Rightarrow>
                                           Inr (record_details cfg
                                                 (st\<lparr>data := d,
                                                      processed_rows := processed_rows st + 1\<rparr>)
                                                 nmi suffix is_standard_pattern device_num))))))
            | _ \<Rightarrow> Inr (skip_row st)))"

fun read_rows ::
  "config \<Rightarrow> reader_state \<Rightarrow> row list \<Rightarrow> (py_error \<times> reader_state) + reader_state"
where
  "read_rows cfg st [] = Inr st"
| "read_rows cfg st (r # rs) =
     (case process_row cfg st r of Inl e \<Rightarrow> Inl e | Inr st' \<Rightarrow> read_rows cfg st' rs)"

subsection \<open>The writer\<close>

text \<open>A cell handed to \<^verbatim>\<open>writer.writerow\<close>: an \<^verbatim>\<open>int\<close> or a \<^verbatim>\<open>str\<close>.\<close>

datatype cell = Int_cell int | Str_cell string

record writer_state =
  written :: "cell list list"
  errors :: "message list"

text \<open>
  The loop over \<^verbatim>\<open>enumerate(intervals)\<close>: the rendered values and the quality of
  every slot. \<^verbatim>\<open>qualities[i]\<close> raises when the quality list is the shorter one.
\<close>

fun render_intervals ::
  "string list \<Rightarrow> int \<Rightarrow> pyfloat option list \<Rightarrow> py_error + (string list \<times> string list)"
where
  "render_intervals qualities i [] = Inr ([], [])"
| "render_intervals qualities i (val # rest) =
     (case get_item qualities i of
        Inl e \<Rightarrow> Inl e
      | Inr q \<Rightarrow>
          (let interval_quality = (if q \<noteq> [] then q else DEFAULT_QUALITY)
           in case render_intervals qualities (i + 1) rest of
                Inl e \<Rightarrow> Inl e
              | Inr (processed_intervals, final_qualities_for_day) \<Rightarrow>
                  (case val of
                     Some v \<Rightarrow>
                       Inr (format_3f v # processed_intervals,
                            interval_quality # final_qualities_for_day)
                   | None \<Rightarrow>
                       Inr (''0.000'' # processed_intervals,
                            ''S'' # final_qualities_for_day))))"

text \<open>The 300 record of a day.\<close>

definition record_300 :: "date \<Rightarrow> string list \<Rightarrow> string \<Rightarrow> cell list" where
  "record_300 interval_date processed_intervals day_quality_method =
     Int_cell 300 # Str_cell (format_nem12_date interval_date) # map Str_cell processed_intervals
       @ [Str_cell day_quality_method, Str_cell [], Str_cell [], Str_cell []]"

text \<open>
  The body of the loop over the dates of one stream. \<open>Inl\<close> is an exception, with
  what had been written and reported before it.
\<close>

definition write_day ::
  "config \<Rightarrow> string \<Rightarrow> string \<Rightarrow> date \<Rightarrow> day_data \<Rightarrow> writer_state
     \<Rightarrow> (py_error \<times> writer_state) + writer_state"
where
  "write_day cfg nmi suffix interval_date dd w =
     (if list_all (\<lambda>v. v = None) (intervals dd) then Inr w
      else
        (case render_intervals (quality dd) 0 (intervals dd) of
           Inl e \<Rightarrow> Inl (e, w)
         | Inr (processed_intervals, final_qualities_for_day) \<Rightarrow>
             if int (length processed_intervals) \<noteq> INTERVALS_PER_DAY cfg then
               Inr (w\<lparr>errors := errors w @
                        [Inconsistency nmi suffix (format_nem12_date interval_date)
                           (INTERVALS_PER_DAY cfg) (length processed_intervals)]\<rparr>)
             else
               Inr (w\<lparr>written := written w @
                        [record_300 interval_date processed_intervals
                           (determine_day_quality final_qualities_for_day)]\<rparr>)))"

fun write_days ::
  "config \<Rightarrow> string \<Rightarrow> string \<Rightarrow> (date, day_data) dict \<Rightarrow> date list \<Rightarrow> writer_state
     \<Rightarrow> (py_error \<times> writer_state) + writer_state"
where
  "write_days cfg nmi suffix date_data [] w = Inr w"
| "write_days cfg nmi suffix date_data (interval_date # ds) w =
     (case write_day cfg nmi suffix interval_date
             (get_default date_data interval_date (new_day_data cfg)) w of
        Inl e \<Rightarrow> Inl e
      | Inr w' \<Rightarrow> write_days cfg nmi suffix date_data ds w')"

text \<open>The 200 record of a stream.\<close>

definition record_200 :: "string \<Rightarrow> string \<Rightarrow> details \<Rightarrow> cell list" where
  "record_200 nmi nmi_config_string dt =
     [Int_cell 200, Str_cell nmi, Str_cell nmi_config_string, Str_cell [], Str_cell (NMISuffix dt),
      Str_cell (MDMDataStreamIdentifier dt), Str_cell (MeterSerialNumber dt), Str_cell (UOM dt),
      Int_cell (IntervalLength dt), Str_cell (NextScheduledReadDate dt)]"

text \<open>The body of the loop over the suffixes of one meter, and the loop.\<close>

definition write_suffix ::
  "config \<Rightarrow> data_t \<Rightarrow> (string, (string, details) dict) dict \<Rightarrow> string \<Rightarrow> string \<Rightarrow> string
     \<Rightarrow> writer_state \<Rightarrow> (py_error \<times> writer_state) + writer_state"
where
  "write_suffix cfg d nd nmi nmi_config_string suffix w =
     (case map_of (get_default nd nmi []) suffix of
        None \<Rightarrow> Inl (KeyError, w)
      | Some dt \<Rightarrow>
          (let nmi_suffix_date_data = get_default (get_default d nmi []) suffix []
           in write_days cfg nmi suffix nmi_suffix_date_data
                (sort (keys nmi_suffix_date_data))
                (w\<lparr>written := written w @ [record_200 nmi nmi_config_string dt]\<rparr>)))"

fun write_suffixes ::
  "config \<Rightarrow> data_t \<Rightarrow> (string, (string, details) dict) dict \<Rightarrow> string \<Rightarrow> string
     \<Rightarrow> string list \<Rightarrow> writer_state \<Rightarrow> (py_error \<times> writer_state) + writer_state"
where
  "write_suffixes cfg d nd nmi nmi_config_string [] w = Inr w"
| "write_suffixes cfg d nd nmi nmi_config_string (suffix # ss) w =
     (case write_suffix cfg d nd nmi nmi_config_string suffix w of
        Inl e \<Rightarrow> Inl e
      | Inr w' \<Rightarrow> write_suffixes cfg d nd nmi nmi_config_string ss w')"

text \<open>The body of the loop over the meters, and the loop.\<close>

definition write_nmi ::
  "config \<Rightarrow> data_t \<Rightarrow> (string, (string, details) dict) dict \<Rightarrow> string \<Rightarrow> writer_state
     \<Rightarrow> (py_error \<times> writer_state) + writer_state"
where
  "write_nmi cfg d nd nmi w =
     (let observed_suffixes = sort (keys (get_default nd nmi []));
          nmi_config_string = concat observed_suffixes;
          too_long = (255 < length nmi_config_string)
      in write_suffixes cfg d nd nmi
           (if too_long then take 255 nmi_config_string else nmi_config_string)
           (sort (keys (get_default nd nmi [])))
           (if too_long then w\<lparr>errors := errors w @ [Truncating_warning nmi]\<rparr> else w))"

fun write_nmis ::
  "config \<Rightarrow> data_t \<Rightarrow> (string, (string, details) dict) dict \<Rightarrow> string list \<Rightarrow> writer_state
     \<Rightarrow> (py_error \<times> writer_state) + writer_state"
where
  "write_nmis cfg d nd [] w = Inr w"
| "write_nmis cfg d nd (nmi # ns) w =
     (case write_nmi cfg d nd nmi w of
        Inl e \<Rightarrow> Inl e
      | Inr w' \<Rightarrow> write_nmis cfg d nd ns w')"

subsection \<open>The conversion\<close>

text \<open>
  The input file as the \<^verbatim>\<open>DictReader\<close> presents it (\<open>None\<close> for the field names of an
  empty file), and what a run leaves behind: the exit status, the two output streams and
  the rows of the output file, \<open>None\<close> when the file was never opened. The output file is
  taken to be writable, and \<open>now\<close> is the clock read for the 100 record.
\<close>

record csv_file =
  fieldnames :: "string list option"
  rows :: "row list"

record outcome =
  exit_status :: int
  stdout :: "message list"
  stderr :: "message list"
  output_file :: "cell list list option"

definition expected_headers :: "string list" where
  "expected_headers =
     [''NMI'', ''RegisterCode'', ''StartDate'', ''ProfileReadValue'', ''QualityFlag'',
      ''DeviceNumber'']"

definition headers_ok :: "string list option \<Rightarrow> bool" where
  "headers_ok fs =
     (case fs of None \<Rightarrow> False
      | Some names \<Rightarrow> names \<noteq> [] \<and> list_all (\<lambda>h. h \<in> set names) expected_headers)"

definition record_100 :: "datetime \<Rightarrow> cell list" where
  "record_100 now =
     [Int_cell 100, Str_cell NEM12_VERSION, Str_cell (format_nem12_datetime now), Str_cell FROM_PARTICIPANT,
      Str_cell TO_PARTICIPANT]"

definition convert_agl_to_nem12 ::
  "config \<Rightarrow> datetime \<Rightarrow> string \<Rightarrow> csv_file option \<Rightarrow> string \<Rightarrow> outcome"
where
  "convert_agl_to_nem12 cfg now input_filepath infile output_filepath =
     (let out0 = [Reading_from input_filepath,
                  Expecting (INTERVALS_PER_DAY cfg) (INTERVAL_LENGTH cfg)]
      in case infile of
           None \<Rightarrow>
             \<lparr>exit_status = 1, stdout = out0, stderr = [File_not_found input_filepath],
              output_file = None\<rparr>
         | Some f \<Rightarrow>
             if \<not> headers_ok (fieldnames f) then
               \<lparr>exit_status = 1, stdout = out0,
                stderr = [Missing_headers expected_headers (fieldnames f)],
                output_file = None\<rparr>
             else
               (case read_rows cfg init_state (rows f) of
                  Inl (e, st) \<Rightarrow>
                    \<lparr>exit_status = 1, stdout = out0,
                     stderr = warnings st @ [Unexpected_reading], output_file = None\<rparr>
                | Inr st \<Rightarrow>
                    (let out1 = out0 @ (if 0 < skipped_rows st
                                        then [Skipped_info (skipped_rows st)] else [])
                     in if data st = [] then
                          \<lparr>exit_status = 0, stdout = out1 @ [No_valid_rows],
                           stderr = warnings st, output_file = None\<rparr>
                        else
                          (let out2 = out1 @
                                 [Finished_reading (row_count st) (processed_rows st),
                                  Found_NMIs (length (data st)), Writing_to output_filepath]
                           in case write_nmis cfg (data st) (nmi_details st)
                                     (sort (keys (data st)))
                                     \<lparr>written = [record_100 now], errors = []\<rparr> of
                                Inl (e, w) \<Rightarrow>
                                  \<lparr>exit_status = 1, stdout = out2,
                                   stderr = warnings st @ errors w @ [Unexpected_writing],
                                   output_file = Some (written w)\<rparr>
                              | Inr w \<Rightarrow>
                                  \<lparr>exit_status = 0,
                                   stdout = out2 @ [Success output_filepath],
                                   stderr = warnings st @ errors w,
                                   output_file = Some (written w @ [[Int_cell 900]])\<rparr>))))"

subsection \<open>Notions used in the statements\<close>

text \<open>The order in which \<open>determine_day_quality\<close> looks for the codes.\<close>

definition priority_order :: "string list" where
  "priority_order = [''N'', ''S'', ''E'', ''F'', ''A'']"

text \<open>The bucket of a meter, suffix and date, when the data hold one.\<close>

definition find_day :: "data_t \<Rightarrow> string \<Rightarrow> string \<Rightarrow> date \<Rightarrow> day_data option" where
  "find_day d nmi suffix interval_date =
     map_of (get_default (get_default d nmi []) suffix []) interval_date"

text \<open>The state after \<^verbatim>\<open>row_count += 1\<close>.\<close>

definition counted :: "reader_state \<Rightarrow> reader_state" where
  "counted st = st\<lparr>row_count := row_count st + 1\<rparr>"

text \<open>The timestamp and the suffix of a row, as the reader computes them.\<close>

definition parsed_start :: "row \<Rightarrow> datetime option" where
  "parsed_start r = (case StartDate r of None \<Rightarrow> None | Some s \<Rightarrow> parse_agl_datetime s)"

definition extracted_suffix :: "row \<Rightarrow> string option" where
  "extracted_suffix r =
     (case RegisterCode r of None \<Rightarrow> None | Some c \<Rightarrow> fst (get_suffix_from_register c))"

definition slot_of :: "config \<Rightarrow> datetime \<Rightarrow> int" where
  "slot_of cfg dt = (hour dt * 60 + minute dt) div INTERVAL_LENGTH cfg"

text \<open>The rows the reader skips: the checks of the loop body, in its order.\<close>

definition row_skipped :: "config \<Rightarrow> row \<Rightarrow> bool" where
  "row_skipped cfg r =
     (\<not> truthy (NMI r) \<or> \<not> truthy (RegisterCode r) \<or> \<not> truthy (StartDate r)
      \<or> ProfileReadValue r = None \<or> \<not> truthy (QualityFlag r) \<or> \<not> truthy (DeviceNumber r)
      \<or> (case parsed_start r of
            None \<Rightarrow> True
          | Some dt \<Rightarrow>
              get_interval_index cfg (Some dt) (INTERVAL_LENGTH cfg) = None
              \<or> extracted_suffix r = None))"

text \<open>
  A bucket as the reader leaves it: both lists as long as the day has intervals, a slot
  filled, and a quality code on every filled slot.
\<close>

definition day_ok :: "config \<Rightarrow> day_data \<Rightarrow> bool" where
  "day_ok cfg dd =
     (0 < INTERVALS_PER_DAY cfg
      \<and> length (intervals dd) = nat (INTERVALS_PER_DAY cfg)
      \<and> length (quality dd) = nat (INTERVALS_PER_DAY cfg)
      \<and> (\<exists>i < length (intervals dd). intervals dd ! i \<noteq> None)
      \<and> (\<forall>i < length (intervals dd). intervals dd ! i \<noteq> None \<longrightarrow> quality dd ! i \<noteq> []))"

definition data_ok :: "config \<Rightarrow> data_t \<Rightarrow> bool" where
  "data_ok cfg d =
     (\<forall>nmi suffix interval_date dd.
        find_day d nmi suffix interval_date = Some dd \<longrightarrow> day_ok cfg dd)"

definition is_inconsistency :: "message \<Rightarrow> bool" where
  "is_inconsistency m = (case m of Inconsistency a b c d e \<Rightarrow> True | _ \<Rightarrow> False)"

text \<open>The rendering of one slot and the quality it counts with.\<close>

definition slot_text :: "pyfloat option \<Rightarrow> string" where
  "slot_text v = (case v of Some x \<Rightarrow> format_3f x | None \<Rightarrow> ''0.000'')"

definition slot_quality :: "pyfloat option \<Rightarrow> string \<Rightarrow> string" where
  "slot_quality v q = (case v of Some x \<Rightarrow> q | None \<Rightarrow> ''S'')"

text \<open>The sample scenario: one reading at half past midnight, 30 minute intervals.\<close>

definition sample_config :: config where
  "sample_config = \<lparr>INTERVAL_LENGTH = 30, INTERVALS_PER_DAY = 48\<rparr>"

definition sample_row :: row where
  "sample_row =
     \<lparr>NMI = Some ''NMI123456'', RegisterCode = Some ''E1#E1'',
      StartDate = Some ''01/06/2024 12:30:00 AM'', ProfileReadValue = Some ''1.234'',
      QualityFlag = Some ''A'', DeviceNumber = Some ''DEV1''\<rparr>"

definition sample_file :: csv_file where
  "sample_file = \<lparr>fieldnames = Some expected_headers, rows = [sample_row]\<rparr>"

definition sample_start :: datetime where
  "sample_start = \<lparr>year = 2024, month = 6, day = 1, hour = 0, minute = 30, second = 0\<rparr>"




definition no_output :: writer_state where
  "no_output = \<lparr>written = [], errors = []\<rparr>"


text \<open>The sample file with another value in its row.\<close>

definition sample_file_with :: "string \<Rightarrow> csv_file" where
  "sample_file_with value_str =
     \<lparr>fieldnames = Some expected_headers,
      rows = [sample_row\<lparr>ProfileReadValue := Some value_str\<rparr>]\<rparr>"

section \<open>Properties\<close>

subsection \<open>Lists, slots and buckets\<close>

lemma set_item_in_range:
  "0 \<le> i \<Longrightarrow> i < int (length xs) \<Longrightarrow> set_item xs i v = Inr (xs[nat i := v])"
  by (simp add: set_item_def py_index_def)

lemma get_item_in_range:
  "0 \<le> i \<Longrightarrow> i < int (length xs) \<Longrightarrow> get_item xs i = Inr (xs ! nat i)"
  by (simp add: get_item_def py_index_def)

lemma get_interval_index_Some:
  "get_interval_index cfg (Some dt) l = Some i \<Longrightarrow> 0 \<le> i \<and> i < INTERVALS_PER_DAY cfg \<and> 0 < l \<and> i = (hour dt * 60 + minute dt) div l"
  by (auto simp: get_interval_index_def Let_def split: if_splits)


lemma suffix_nonempty:
  "get_suffix_from_register c = (Some s, b) \<Longrightarrow> s \<noteq> []"
  by (auto simp: get_suffix_from_register_def Let_def split: if_splits)


lemma get_default_update:
  "get_default (AList.update k v al) k' dflt = (if k' = k then v else get_default al k' dflt)"
  by (simp add: get_default_def update_conv')

lemma find_day_update:
  "find_day (AList.update nmi (AList.update suffix (AList.update dt dd
       (get_default (get_default d nmi []) suffix [])) (get_default d nmi [])) d) n s t =
     (if n = nmi \<and> s = suffix \<and> t = dt then Some dd else find_day d n s t)"
  by (simp add: find_day_def get_default_update update_conv')

lemma old_day_find:
  "get_default (get_default (get_default d nmi []) suffix []) dt dflt =
     (case find_day d nmi suffix dt of Some dd \<Rightarrow> dd | None \<Rightarrow> dflt)"
  by (simp add: find_day_def get_default_def)

lemma new_day_data_len:
  "length (intervals (new_day_data cfg)) = nat (INTERVALS_PER_DAY cfg)"
  "length (quality (new_day_data cfg)) = nat (INTERVALS_PER_DAY cfg)"
  by (simp_all add: new_day_data_def)

lemma new_day_data_nth:
  "i < nat (INTERVALS_PER_DAY cfg) \<Longrightarrow> intervals (new_day_data cfg) ! i = None"
  by (simp add: new_day_data_def)

lemma data_okD: "data_ok cfg d \<Longrightarrow> find_day d n s t = Some dd \<Longrightarrow> day_ok cfg dd"
  unfolding data_ok_def by blast

lemma old_day_len:
  assumes "data_ok cfg d"
  shows "length (intervals (case find_day d nmi suffix dt of Some dd \<Rightarrow> dd | None \<Rightarrow> new_day_data cfg)) = nat (INTERVALS_PER_DAY cfg)"
    and "length (quality (case find_day d nmi suffix dt of Some dd \<Rightarrow> dd | None \<Rightarrow> new_day_data cfg)) = nat (INTERVALS_PER_DAY cfg)"
proof -
  show "length (intervals (case find_day d nmi suffix dt of Some dd \<Rightarrow> dd | None \<Rightarrow> new_day_data cfg)) = nat (INTERVALS_PER_DAY cfg)"
  proof (cases "find_day d nmi suffix dt")
    case None then show ?thesis by (simp add: new_day_data_len)
  next
    case (Some dd) with data_okD[OF assms Some] show ?thesis by (simp add: day_ok_def)
  qed
  show "length (quality (case find_day d nmi suffix dt of Some dd \<Rightarrow> dd | None \<Rightarrow> new_day_data cfg)) = nat (INTERVALS_PER_DAY cfg)"
  proof (cases "find_day d nmi suffix dt")
    case None then show ?thesis by (simp add: new_day_data_len)
  next
    case (Some dd) with data_okD[OF assms Some] show ?thesis by (simp add: day_ok_def)
  qed
qed

lemma old_day_quality:
  assumes "data_ok cfg d"
  shows "\<forall>j < length (intervals (case find_day d nmi suffix dt of Some dd \<Rightarrow> dd | None \<Rightarrow> new_day_data cfg)).
           intervals (case find_day d nmi suffix dt of Some dd \<Rightarrow> dd | None \<Rightarrow> new_day_data cfg) ! j \<noteq> None
           \<longrightarrow> quality (case find_day d nmi suffix dt of Some dd \<Rightarrow> dd | None \<Rightarrow> new_day_data cfg) ! j \<noteq> []"
proof (cases "find_day d nmi suffix dt")
  case None then show ?thesis by (simp add: new_day_data_def)
next
  case (Some dd) with data_okD[OF assms Some] show ?thesis by (simp add: day_ok_def)
qed

lemma store_reading_ok:
  fixes nmi suffix :: string and dt :: date
  assumes ok: "data_ok cfg d" and i: "0 \<le> i" "i < INTERVALS_PER_DAY cfg"
  defines "old \<equiv> (case find_day d nmi suffix dt of Some dd \<Rightarrow> dd | None \<Rightarrow> new_day_data cfg)"
  shows "\<exists>d'. store_reading cfg d nmi suffix dt i v q = Inr d'
           \<and> (\<forall>n s t. find_day d' n s t =
                (if n = nmi \<and> s = suffix \<and> t = dt
                 then Some \<lparr>intervals = (intervals old)[nat i := Some v],
                            quality = (quality old)[nat i := q]\<rparr>
                 else find_day d n s t))"
proof -
  have li: "i < int (length (intervals old))" and lq: "i < int (length (quality old))"
    using old_day_len[OF ok, of nmi suffix dt] i by (simp_all add: old_def)
  show ?thesis
    unfolding store_reading_def Let_def old_day_find
    using set_item_in_range[OF i(1) li] set_item_in_range[OF i(1) lq]
    by (simp add: old_def find_day_update)
qed

lemma day_ok_update:
  assumes i: "0 \<le> i" "i < INTERVALS_PER_DAY cfg" and q: "q \<noteq> []"
    and li: "length (intervals old) = nat (INTERVALS_PER_DAY cfg)"
    and lq: "length (quality old) = nat (INTERVALS_PER_DAY cfg)"
    and qs: "\<forall>j < length (intervals old). intervals old ! j \<noteq> None \<longrightarrow> quality old ! j \<noteq> []"
  shows "day_ok cfg \<lparr>intervals = (intervals old)[nat i := Some v], quality = (quality old)[nat i := q]\<rparr>"
proof -
  have n: "nat i < length (intervals old)" and n': "nat i < length (quality old)"
    using i li lq by simp_all
  have filled: "\<exists>j < length ((intervals old)[nat i := Some v]). (intervals old)[nat i := Some v] ! j \<noteq> None"
    using n by (intro exI[of _ "nat i"]) simp
  have codes: "\<forall>j < length ((intervals old)[nat i := Some v]).
      (intervals old)[nat i := Some v] ! j \<noteq> None \<longrightarrow> (quality old)[nat i := q] ! j \<noteq> []"
  proof (intro allI impI)
    fix j assume j: "j < length ((intervals old)[nat i := Some v])"
      and f: "(intervals old)[nat i := Some v] ! j \<noteq> None"
    show "(quality old)[nat i := q] ! j \<noteq> []"
    proof (cases "j = nat i")
      case True then show ?thesis using n' q by simp
    next
      case False then show ?thesis using j f qs by simp
    qed
  qed
  show ?thesis
    unfolding day_ok_def using i li lq filled codes by simp
qed

lemma store_reading_data_ok:
  fixes nmi suffix :: string and dt :: date
  assumes ok: "data_ok cfg d" and i: "0 \<le> i" "i < INTERVALS_PER_DAY cfg" and q: "q \<noteq> []"
    and st: "store_reading cfg d nmi suffix dt i v q = Inr d'"
  shows "data_ok cfg d'"
proof -
  let ?old = "(case find_day d nmi suffix dt of Some dd \<Rightarrow> dd | None \<Rightarrow> new_day_data cfg)"
  from store_reading_ok[OF ok i, of nmi suffix dt v q] st
  have fd: "\<And>n s t. find_day d' n s t =
                (if n = nmi \<and> s = suffix \<and> t = dt
                 then Some \<lparr>intervals = (intervals ?old)[nat i := Some v],
                            quality = (quality ?old)[nat i := q]\<rparr>
                 else find_day d n s t)" by auto
  have new: "day_ok cfg \<lparr>intervals = (intervals ?old)[nat i := Some v], quality = (quality ?old)[nat i := q]\<rparr>"
    by (rule day_ok_update[OF i q old_day_len[OF ok] old_day_quality[OF ok]])
  show ?thesis
    unfolding data_ok_def
  proof (intro allI impI)
    fix n s t dd assume "find_day d' n s t = Some dd"
    then show "day_ok cfg dd"
      using new data_okD[OF ok] by (auto simp: fd split: if_splits)
  qed
qed

subsection \<open>Suffix extraction\<close>

text \<open>
  Claim C6. The suffix is the text after the last \<^verbatim>\<open>#\<close>, and it is standard when it
  is one letter of E, B, V, Q, K, N in either case followed by digits. The class of the
  pattern lists the six capitals and only five small letters (\<^verbatim>\<open>b\<close> is missing), so
  the code takes the suffix \<^verbatim>\<open>b1\<close> for non-standard, while it takes \<^verbatim>\<open>B1\<close> and
  \<^verbatim>\<open>e1\<close> for standard and classifies \<^verbatim>\<open>b1\<close> as it does \<^verbatim>\<open>B1\<close>.
\<close>

theorem lowercase_b_suffix_not_standard:
  "get_suffix_from_register ''E1#b1'' = (Some ''b1'', False)
   \<and> get_suffix_from_register ''E1#B1'' = (Some ''B1'', True)
   \<and> get_suffix_from_register ''E1#e1'' = (Some ''e1'', True)
   \<and> mdm_data_stream_id ''b1'' = mdm_data_stream_id ''B1''"
  by code_simp

subsection \<open>Day quality\<close>

text \<open>
  Claim C2, as stated: the aggregate is the highest code present under the order
  substituted, estimate, actual-estimate, final, defaulted. The substituted code is
  \<^verbatim>\<open>S\<close>; a day that holds \<^verbatim>\<open>S\<close> and \<^verbatim>\<open>N\<close> gets \<^verbatim>\<open>N\<close>, so \<^verbatim>\<open>S\<close> is not
  the highest.
\<close>

theorem substituted_is_not_highest:
  "''S'' \<in> set [''N'', ''S''] \<and> determine_day_quality [''N'', ''S''] \<noteq> ''S''
   \<and> determine_day_quality [''N'', ''S''] = ''N''"
  by code_simp

text \<open>
  Claim C2, amended: the aggregate of a day is the first code of the order
  \<^verbatim>\<open>N\<close>, \<^verbatim>\<open>S\<close>, \<^verbatim>\<open>E\<close>, \<^verbatim>\<open>F\<close>, \<^verbatim>\<open>A\<close> that some interval carries, whatever
  the number of intervals that carry it, and the default \<^verbatim>\<open>E\<close> when no interval
  carries any of the five.
\<close>

theorem day_quality_priority:
  "determine_day_quality qs =
     (case find (\<lambda>c. c \<in> set qs) priority_order of
        Some c \<Rightarrow> c
      | None \<Rightarrow> DEFAULT_QUALITY)"
  by (auto simp: determine_day_quality_def priority_order_def DEFAULT_QUALITY_def Let_def
        filter_empty_conv)

subsection \<open>Stream classification\<close>

text \<open>
  Claim C7. The stream kind of a suffix depends on its first character only, without
  regard to case: \<^verbatim>\<open>B\<close> gives GENERATION, \<^verbatim>\<open>E\<close> and \<^verbatim>\<open>V\<close> give CONSUMPTION,
  \<^verbatim>\<open>Q\<close> and \<^verbatim>\<open>K\<close> give REACTIVE, anything else INTERVAL.
\<close>

theorem stream_kind_by_first_character:
  "mdm_data_stream_id suffix =
     (case suffix of
        [] \<Rightarrow> ''INTERVAL''
      | c # rest \<Rightarrow>
          if c \<in> set ''Bb'' then ''GENERATION''
          else if c \<in> set ''EeVv'' then ''CONSUMPTION''
          else if c \<in> set ''QqKk'' then ''REACTIVE''
          else ''INTERVAL'')"
  by (cases suffix)
     (auto simp: mdm_data_stream_id_def py_upper_def startswith_def upper_char_def Let_def
        split: option.splits if_splits)

subsection \<open>The reader keeps its buckets well formed\<close>

lemma process_row_skipped:
  assumes "row_skipped cfg r"
  shows "process_row cfg st r = Inr (skip_row (counted st))"
  using assms
  by (auto simp: process_row_def row_skipped_def truthy_def counted_def parsed_start_def
        extracted_suffix_def Let_def split: option.splits prod.splits)

lemma not_skipped_fields:
  assumes "\<not> row_skipped cfg r"
  obtains nmi rc sd vs qf dn dt i sfx std where
    "NMI r = Some nmi" "nmi \<noteq> []" "RegisterCode r = Some rc" "rc \<noteq> []"
    "StartDate r = Some sd" "sd \<noteq> []" "ProfileReadValue r = Some vs"
    "QualityFlag r = Some qf" "qf \<noteq> []" "DeviceNumber r = Some dn" "dn \<noteq> []"
    "parse_agl_datetime sd = Some dt"
    "get_interval_index cfg (Some dt) (INTERVAL_LENGTH cfg) = Some i"
    "get_suffix_from_register rc = (Some sfx, std)"
  using assms
  by (auto simp: row_skipped_def truthy_def parsed_start_def extracted_suffix_def
        split: option.splits) (metis prod.collapse)

lemma process_row_accepted:
  assumes "NMI r = Some nmi" "nmi \<noteq> []" "RegisterCode r = Some rc" "rc \<noteq> []"
    "StartDate r = Some sd" "sd \<noteq> []" "ProfileReadValue r = Some vs"
    "QualityFlag r = Some qf" "qf \<noteq> []" "DeviceNumber r = Some dn" "dn \<noteq> []"
    "parse_agl_datetime sd = Some dt"
    "get_interval_index cfg (Some dt) (INTERVAL_LENGTH cfg) = Some i"
    "get_suffix_from_register rc = (Some sfx, std)"
  shows "process_row cfg st r =
     (case store_reading cfg (data st) nmi sfx (date_of dt) i
             (fst (value_and_quality vs qf)) (snd (value_and_quality vs qf)) of
        Inl e \<Rightarrow> Inl (e, counted st)
      | Inr d \<Rightarrow>
          Inr (record_details cfg
                ((counted st)\<lparr>data := d, processed_rows := processed_rows (counted st) + 1\<rparr>)
                nmi sfx std dn))"
  using assms suffix_nonempty[OF assms(14)]
  by (auto simp: process_row_def truthy_def counted_def Let_def split: prod.splits sum.splits)

lemma record_details_fields:
  "data (record_details cfg st nmi sfx std dn) = data st"
  "row_count (record_details cfg st nmi sfx std dn) = row_count st"
  "processed_rows (record_details cfg st nmi sfx std dn) = processed_rows st"
  "skipped_rows (record_details cfg st nmi sfx std dn) = skipped_rows st"
  by (simp_all add: record_details_def Let_def)

lemma value_and_quality_nonempty: "snd (value_and_quality vs qf) \<noteq> [] \<or> qf = []"
  by (auto simp: value_and_quality_def get_default_def QUALITY_MAP_def DEFAULT_QUALITY_def
        split: option.splits if_splits)

lemma process_row_data_ok:
  assumes ok: "data_ok cfg (data st)" and pr: "process_row cfg st r = Inr st'"
  shows "data_ok cfg (data st')"
proof (cases "row_skipped cfg r")
  case True
  with pr show ?thesis using ok
    by (auto simp: process_row_skipped skip_row_def counted_def)
next
  case False
  then obtain nmi rc sd vs qf dn dt i sfx std where f:
    "NMI r = Some nmi" "nmi \<noteq> []" "RegisterCode r = Some rc" "rc \<noteq> []"
    "StartDate r = Some sd" "sd \<noteq> []" "ProfileReadValue r = Some vs"
    "QualityFlag r = Some qf" "qf \<noteq> []" "DeviceNumber r = Some dn" "dn \<noteq> []"
    "parse_agl_datetime sd = Some dt"
    "get_interval_index cfg (Some dt) (INTERVAL_LENGTH cfg) = Some i"
    "get_suffix_from_register rc = (Some sfx, std)"
    by (rule not_skipped_fields)
  have i: "0 \<le> i" "i < INTERVALS_PER_DAY cfg"
    using get_interval_index_Some[OF f(13)] by simp_all
  have q: "snd (value_and_quality vs qf) \<noteq> []"
    using value_and_quality_nonempty[of vs qf] f(9) by simp
  from store_reading_ok[OF ok i, of nmi sfx "date_of dt" "fst (value_and_quality vs qf)" "snd (value_and_quality vs qf)"]
  obtain d' where d': "store_reading cfg (data st) nmi sfx (date_of dt) i
             (fst (value_and_quality vs qf)) (snd (value_and_quality vs qf)) = Inr d'"
    by blast
  have "data_ok cfg d'"
    by (rule store_reading_data_ok[OF ok i q d'])
  moreover have "data st' = d'"
    using pr unfolding process_row_accepted[OF f] d' by (auto simp: record_details_fields)
  ultimately show ?thesis by simp
qed

lemma process_row_no_raise:
  assumes ok: "data_ok cfg (data st)"
  shows "\<exists>st'. process_row cfg st r = Inr st'"
proof (cases "row_skipped cfg r")
  case True
  then show ?thesis by (simp add: process_row_skipped)
next
  case False
  then obtain nmi rc sd vs qf dn dt i sfx std where f:
    "NMI r = Some nmi" "nmi \<noteq> []" "RegisterCode r = Some rc" "rc \<noteq> []"
    "StartDate r = Some sd" "sd \<noteq> []" "ProfileReadValue r = Some vs"
    "QualityFlag r = Some qf" "qf \<noteq> []" "DeviceNumber r = Some dn" "dn \<noteq> []"
    "parse_agl_datetime sd = Some dt"
    "get_interval_index cfg (Some dt) (INTERVAL_LENGTH cfg) = Some i"
    "get_suffix_from_register rc = (Some sfx, std)"
    by (rule not_skipped_fields)
  have i: "0 \<le> i" "i < INTERVALS_PER_DAY cfg"
    using get_interval_index_Some[OF f(13)] by simp_all
  from store_reading_ok[OF ok i, of nmi sfx "date_of dt" "fst (value_and_quality vs qf)" "snd (value_and_quality vs qf)"]
  obtain d' where d': "store_reading cfg (data st) nmi sfx (date_of dt) i
             (fst (value_and_quality vs qf)) (snd (value_and_quality vs qf)) = Inr d'"
    by blast
  show ?thesis unfolding process_row_accepted[OF f] d' by simp
qed

lemma read_rows_data_ok:
  "data_ok cfg (data st) \<Longrightarrow> \<exists>st'. read_rows cfg st rs = Inr st' \<and> data_ok cfg (data st')"
proof (induction rs arbitrary: st)
  case Nil
  then show ?case by simp
next
  case (Cons r rs)
  from process_row_no_raise[OF Cons.prems, of r]
  obtain st1 where st1: "process_row cfg st r = Inr st1" by blast
  have "data_ok cfg (data st1)" by (rule process_row_data_ok[OF Cons.prems st1])
  from Cons.IH[OF this] show ?case by (simp add: st1)
qed

lemma data_ok_init: "data_ok cfg (data init_state)"
  by (simp add: data_ok_def find_day_def init_state_def get_default_def)

lemma read_rows_reachable:
  "\<exists>st. read_rows cfg init_state rs = Inr st \<and> data_ok cfg (data st)"
  by (rule read_rows_data_ok[OF data_ok_init])

subsection \<open>What the reader does with a row\<close>

lemma process_row_stores:
  assumes ok: "data_ok cfg (data st)" and ns: "\<not> row_skipped cfg r"
    and r: "NMI r = Some nmi" "extracted_suffix r = Some sfx" "parsed_start r = Some dt"
      "ProfileReadValue r = Some vs" "QualityFlag r = Some qf"
  shows "\<exists>st'. process_row cfg st r = Inr st'
           \<and> row_count st' = row_count st + 1
           \<and> processed_rows st' = processed_rows st + 1
           \<and> skipped_rows st' = skipped_rows st
           \<and> 0 \<le> slot_of cfg dt \<and> slot_of cfg dt < INTERVALS_PER_DAY cfg
           \<and> (\<exists>dd. find_day (data st') nmi sfx (date_of dt) = Some dd
                 \<and> length (intervals dd) = nat (INTERVALS_PER_DAY cfg)
                 \<and> intervals dd ! nat (slot_of cfg dt) = Some (fst (value_and_quality vs qf))
                 \<and> quality dd ! nat (slot_of cfg dt) = snd (value_and_quality vs qf))"
proof -
  from ns obtain nmi' rc sd vs' qf' dn dt' i sfx' std where f:
    "NMI r = Some nmi'" "nmi' \<noteq> []" "RegisterCode r = Some rc" "rc \<noteq> []"
    "StartDate r = Some sd" "sd \<noteq> []" "ProfileReadValue r = Some vs'"
    "QualityFlag r = Some qf'" "qf' \<noteq> []" "DeviceNumber r = Some dn" "dn \<noteq> []"
    "parse_agl_datetime sd = Some dt'"
    "get_interval_index cfg (Some dt') (INTERVAL_LENGTH cfg) = Some i"
    "get_suffix_from_register rc = (Some sfx', std)"
    by (rule not_skipped_fields)
  have eqs: "nmi' = nmi" "vs' = vs" "qf' = qf" "dt' = dt" "sfx' = sfx"
    using r f by (simp_all add: parsed_start_def extracted_suffix_def)
  have i: "0 \<le> i" "i < INTERVALS_PER_DAY cfg" and slot: "i = slot_of cfg dt"
    using get_interval_index_Some[OF f(13)] by (simp_all add: slot_of_def eqs)
  let ?old = "(case find_day (data st) nmi sfx (date_of dt) of Some dd \<Rightarrow> dd | None \<Rightarrow> new_day_data cfg)"
  let ?v = "fst (value_and_quality vs qf)" and ?q = "snd (value_and_quality vs qf)"
  from store_reading_ok[OF ok i, of nmi sfx "date_of dt" ?v ?q]
  obtain d' where d': "store_reading cfg (data st) nmi sfx (date_of dt) i ?v ?q = Inr d'"
    and fd: "find_day d' nmi sfx (date_of dt) =
        Some \<lparr>intervals = (intervals ?old)[nat i := Some ?v], quality = (quality ?old)[nat i := ?q]\<rparr>"
    by fastforce
  have len: "nat i < length (intervals ?old)" "nat i < length (quality ?old)"
    using old_day_len[OF ok, of nmi sfx "date_of dt"] i by simp_all
  have pr: "process_row cfg st r =
      Inr (record_details cfg
            ((counted st)\<lparr>data := d', processed_rows := processed_rows (counted st) + 1\<rparr>)
            nmi sfx std dn)"
    using process_row_accepted[OF f, of st] d' by (simp add: eqs)
  show ?thesis
    unfolding pr using fd len i old_day_len[OF ok, of nmi sfx "date_of dt"]
    by (simp add: record_details_fields counted_def slot[symmetric])
qed



subsection \<open>Skipped rows\<close>




subsection \<open>The value of the sample\<close>

lemma strip_1234: "py_strip ''1.234'' = ''1.234''"
  by (simp add: py_strip_def is_space_def)

lemma und_1234: "drop_underscores (CHR 0x00) ''1.234'' = Some ''1.234''"
  by (simp add: is_digit_def)

lemma dec_1234: "parse_decimal ''1.234'' = Some (1234, -3)"
  by (simp add: parse_decimal_def is_digit_def parse_exponent_def nat_of_digits_def digit_val_def Let_def)

lemma bl_1234: "bit_length 1234 = 11" "bit_length 1000 = 10"
  by (simp_all add: bit_length.simps)

lemma round_1234: "round_to_double False 1234 1000 = Finite False 5557441940175192 (- 52)"
  by (simp add: round_to_double_def floor_log2_def bl_1234 round_half_even_def Let_def)

lemma py_float_1234: "py_float ''1.234'' = Some (Finite False 5557441940175192 (- 52))"
  by (simp add: py_float_def strip_1234 und_1234 parse_sign_def py_lower_def lower_char_def dec_1234 round_1234)

lemma th_1234: "thousandths 5557441940175192 (- 52) = 1234"
  by (simp add: thousandths_def round_half_even_def Let_def)

lemma str_nat_digit: "n < 10 \<Longrightarrow> str_nat n = [digit_char n]"
  by (simp add: str_nat.simps)

lemma str_nat_1: "str_nat (Suc 0) = ''1''"
  using str_nat_digit[of "Suc 0"] by (simp add: digit_char_def)

lemma str_nat_234: "str_nat 234 = ''234''"
  by (subst str_nat.simps, simp, subst str_nat.simps, simp add: str_nat_digit digit_char_def)

lemma format_1234: "format_3f (Finite False 5557441940175192 (- 52)) = ''1.234''"
  by (simp add: format_3f_def th_1234 zero_pad_def str_nat_1 str_nat_234)

subsection \<open>Value and quality of a stored reading\<close>






subsection \<open>The record of a day\<close>

lemma render_intervals_ok:
  "0 \<le> i \<Longrightarrow> nat i + length vs \<le> length qs \<Longrightarrow>
   render_intervals qs i vs =
     Inr (map slot_text vs,
          map2 (\<lambda>v q. slot_quality v (if q \<noteq> [] then q else DEFAULT_QUALITY)) vs
            (drop (nat i) qs))"
proof (induction vs arbitrary: i)
  case Nil
  then show ?case by simp
next
  case (Cons v vs)
  have lt: "i < int (length qs)" using Cons.prems by simp
  have gi: "get_item qs i = Inr (qs ! nat i)"
    by (rule get_item_in_range[OF Cons.prems(1) lt])
  have dr: "drop (nat i) qs = qs ! nat i # drop (nat (i + 1)) qs"
    using Cons.prems lt by (simp add: Cons_nth_drop_Suc nat_add_distrib)
  have ih: "render_intervals qs (i + 1) vs =
     Inr (map slot_text vs,
          map2 (\<lambda>v q. slot_quality v (if q \<noteq> [] then q else DEFAULT_QUALITY)) vs
            (drop (nat (i + 1)) qs))"
    using Cons.prems by (intro Cons.IH) (simp_all add: nat_add_distrib)
  show ?case
    by (cases v) (simp_all add: gi ih dr slot_text_def slot_quality_def Let_def)
qed


lemma all_None_conv: "list_all (\<lambda>v. v = None) vs \<longleftrightarrow> (\<forall>i < length vs. vs ! i = None)"
  by (simp add: list_all_length)

lemma write_day_empty:
  "\<forall>i < length (intervals dd). intervals dd ! i = None \<Longrightarrow>
   write_day cfg nmi sfx dt dd w = Inr w"
  by (simp add: write_day_def all_None_conv)

lemma write_day_filled:
  assumes li: "length (intervals dd) = nat (INTERVALS_PER_DAY cfg)"
    and lq: "length (quality dd) = nat (INTERVALS_PER_DAY cfg)"
    and f: "\<exists>i < length (intervals dd). intervals dd ! i \<noteq> None"
  shows "write_day cfg nmi sfx dt dd w =
     Inr (w\<lparr>written := written w @
            [record_300 dt (map slot_text (intervals dd))
               (determine_day_quality
                 (map2 (\<lambda>v q. slot_quality v (if q \<noteq> [] then q else DEFAULT_QUALITY))
                    (intervals dd) (quality dd)))]\<rparr>)"
proof -
  have ne: "\<not> list_all (\<lambda>v. v = None) (intervals dd)"
    using f by (simp add: all_None_conv)
  from f li have pos: "0 < INTERVALS_PER_DAY cfg" by auto
  have r: "render_intervals (quality dd) 0 (intervals dd) =
     Inr (map slot_text (intervals dd),
          map2 (\<lambda>v q. slot_quality v (if q \<noteq> [] then q else DEFAULT_QUALITY)) (intervals dd)
            (quality dd))"
    using render_intervals_ok[of 0 "intervals dd" "quality dd"] li lq by simp
  have n: "int (length (map slot_text (intervals dd))) = INTERVALS_PER_DAY cfg"
    using li pos by simp
  show ?thesis
    unfolding write_day_def using ne n by (simp add: r)
qed

lemma write_day_new: "write_day cfg nmi sfx dt (new_day_data cfg) w = Inr w"
  by (rule write_day_empty) (simp add: new_day_data_def)

lemma write_day_ok:
  assumes "day_ok cfg dd"
  shows "write_day cfg nmi sfx dt dd w =
     Inr (w\<lparr>written := written w @
            [record_300 dt (map slot_text (intervals dd))
               (determine_day_quality
                 (map2 (\<lambda>v q. slot_quality v (if q \<noteq> [] then q else DEFAULT_QUALITY))
                    (intervals dd) (quality dd)))]\<rparr>)"
proof -
  from assms have "length (intervals dd) = nat (INTERVALS_PER_DAY cfg)"
    and "length (quality dd) = nat (INTERVALS_PER_DAY cfg)"
    and "\<exists>i < length (intervals dd). intervals dd ! i \<noteq> None"
    unfolding day_ok_def by blast+
  then show ?thesis by (rule write_day_filled)
qed

subsection \<open>The writer on the reader's buckets\<close>

lemma get_default_cases:
  "get_default al k dflt = dflt \<and> map_of al k = None \<or> map_of al k = Some (get_default al k dflt)"
  by (simp add: get_default_def split: option.splits)

lemma write_day_total:
  assumes "data_ok cfg d"
  shows "\<exists>w'. write_day cfg nmi sfx t
            (get_default (get_default (get_default d nmi []) sfx []) t (new_day_data cfg)) w = Inr w'
          \<and> errors w' = errors w"
proof (cases "find_day d nmi sfx t")
  case None
  then show ?thesis by (simp add: old_day_find write_day_new)
next
  case (Some dd)
  from data_okD[OF assms Some] have "day_ok cfg dd" .
  then show ?thesis by (simp add: old_day_find Some write_day_ok)
qed

lemma write_days_total:
  assumes "data_ok cfg d"
  shows "\<exists>w'. write_days cfg nmi sfx (get_default (get_default d nmi []) sfx []) ts w = Inr w'
          \<and> errors w' = errors w"
proof (induction ts arbitrary: w)
  case Nil
  then show ?case by simp
next
  case (Cons t ts)
  from write_day_total[OF assms, of nmi sfx t w]
  obtain w1 where w1: "write_day cfg nmi sfx t
            (get_default (get_default (get_default d nmi []) sfx []) t (new_day_data cfg)) w = Inr w1"
    and e1: "errors w1 = errors w" by blast
  from Cons.IH[of w1] show ?case by (simp add: w1 e1)
qed

lemma map_of_keys: "k \<in> set (keys al) \<Longrightarrow> \<exists>v. map_of al k = Some v"
  by (induction al) (auto simp: keys_def)

lemma write_suffix_total:
  assumes "data_ok cfg d" and "sfx \<in> set (keys (get_default nd nmi []))"
  shows "\<exists>w'. write_suffix cfg d nd nmi cs sfx w = Inr w' \<and> errors w' = errors w"
proof -
  from map_of_keys[OF assms(2)] obtain dt where dt: "map_of (get_default nd nmi []) sfx = Some dt"
    by blast
  from write_days_total[OF assms(1), of nmi sfx
      "sort (keys (get_default (get_default d nmi []) sfx []))"
      "w\<lparr>written := written w @ [record_200 nmi cs dt]\<rparr>"]
  show ?thesis by (simp add: write_suffix_def dt Let_def)
qed

lemma write_suffixes_total:
  assumes "data_ok cfg d" and "set ss \<subseteq> set (keys (get_default nd nmi []))"
  shows "\<exists>w'. write_suffixes cfg d nd nmi cs ss w = Inr w' \<and> errors w' = errors w"
  using assms(2)
proof (induction ss arbitrary: w)
  case Nil
  then show ?case by simp
next
  case (Cons s ss)
  from Cons.prems have s: "s \<in> set (keys (get_default nd nmi []))"
    and ss: "set ss \<subseteq> set (keys (get_default nd nmi []))" by simp_all
  from write_suffix_total[OF assms(1) s, of cs w]
  obtain w1 where w1: "write_suffix cfg d nd nmi cs s w = Inr w1" and e1: "errors w1 = errors w"
    by blast
  from Cons.IH[OF ss, of w1] show ?case by (simp add: w1 e1)
qed

lemma write_nmi_total:
  assumes "data_ok cfg d"
  shows "\<exists>w'. write_nmi cfg d nd nmi w = Inr w'
          \<and> (errors w' = errors w \<or> errors w' = errors w @ [Truncating_warning nmi])"
proof -
  have sub: "set (sort (keys (get_default nd nmi []))) \<subseteq> set (keys (get_default nd nmi []))"
    by simp
  show ?thesis
  proof (cases "255 < length (concat (sort (keys (get_default nd nmi []))))")
    case True
    from write_suffixes_total[OF assms sub,
        of "take 255 (concat (sort (keys (get_default nd nmi []))))"
           "w\<lparr>errors := errors w @ [Truncating_warning nmi]\<rparr>"]
    show ?thesis using True by (auto simp: write_nmi_def Let_def)
  next
    case False
    from write_suffixes_total[OF assms sub,
        of "concat (sort (keys (get_default nd nmi [])))" w]
    show ?thesis using False by (auto simp: write_nmi_def Let_def)
  qed
qed

lemma write_nmis_total:
  assumes "data_ok cfg d" and "\<forall>m \<in> set (errors w). \<not> is_inconsistency m"
  shows "\<exists>w'. write_nmis cfg d nd ns w = Inr w' \<and> (\<forall>m \<in> set (errors w'). \<not> is_inconsistency m)"
  using assms(2)
proof (induction ns arbitrary: w)
  case Nil
  then show ?case by simp
next
  case (Cons n ns)
  from write_nmi_total[OF assms(1), of nd n w]
  obtain w1 where w1: "write_nmi cfg d nd n w = Inr w1"
    and e1: "errors w1 = errors w \<or> errors w1 = errors w @ [Truncating_warning n]" by blast
  have "\<forall>m \<in> set (errors w1). \<not> is_inconsistency m"
    using e1 Cons.prems by (auto simp: is_inconsistency_def)
  from Cons.IH[OF this] show ?case by (simp add: w1)
qed

text \<open>The reader warns of suffixes only.\<close>

lemma record_details_warnings:
  "\<forall>m \<in> set (warnings st). \<not> is_inconsistency m \<Longrightarrow>
   \<forall>m \<in> set (warnings (record_details cfg st nmi sfx std dn)). \<not> is_inconsistency m"
  by (auto simp: record_details_def Let_def is_inconsistency_def)

lemma process_row_warnings:
  assumes w: "\<forall>m \<in> set (warnings st). \<not> is_inconsistency m"
    and pr: "process_row cfg st r = Inr st'"
  shows "\<forall>m \<in> set (warnings st'). \<not> is_inconsistency m"
proof (cases "row_skipped cfg r")
  case True
  with pr w show ?thesis
    by (auto simp: process_row_skipped skip_row_def counted_def)
next
  case False
  then obtain nmi rc sd vs qf dn dt i sfx std where f:
    "NMI r = Some nmi" "nmi \<noteq> []" "RegisterCode r = Some rc" "rc \<noteq> []"
    "StartDate r = Some sd" "sd \<noteq> []" "ProfileReadValue r = Some vs"
    "QualityFlag r = Some qf" "qf \<noteq> []" "DeviceNumber r = Some dn" "dn \<noteq> []"
    "parse_agl_datetime sd = Some dt"
    "get_interval_index cfg (Some dt) (INTERVAL_LENGTH cfg) = Some i"
    "get_suffix_from_register rc = (Some sfx, std)"
    by (rule not_skipped_fields)
  show ?thesis
  proof (cases "store_reading cfg (data st) nmi sfx (date_of dt) i
             (fst (value_and_quality vs qf)) (snd (value_and_quality vs qf))")
    case (Inl e)
    with pr show ?thesis unfolding process_row_accepted[OF f] by simp
  next
    case (Inr d)
    with pr have st': "st' = record_details cfg
                ((counted st)\<lparr>data := d, processed_rows := processed_rows (counted st) + 1\<rparr>)
                nmi sfx std dn"
      unfolding process_row_accepted[OF f] by simp
    show ?thesis unfolding st'
      by (rule record_details_warnings) (use w in \<open>simp add: counted_def\<close>)
  qed
qed

lemma read_rows_warnings:
  "\<forall>m \<in> set (warnings st). \<not> is_inconsistency m \<Longrightarrow> read_rows cfg st rs = Inr st' \<Longrightarrow>
   \<forall>m \<in> set (warnings st'). \<not> is_inconsistency m"
proof (induction rs arbitrary: st)
  case Nil
  then show ?case by simp
next
  case (Cons r rs)
  from Cons.prems(2) obtain st1 where st1: "process_row cfg st r = Inr st1"
    and rest: "read_rows cfg st1 rs = Inr st'"
    by (auto split: sum.splits)
  from process_row_warnings[OF Cons.prems(1) st1]
  have "\<forall>m \<in> set (warnings st1). \<not> is_inconsistency m" .
  from Cons.IH[OF this rest] show ?case .
qed

subsection \<open>Whole runs\<close>

lemma convert_total:
  assumes h: "headers_ok (fieldnames f)"
  shows "exit_status (convert_agl_to_nem12 cfg now inp (Some f) outp) = 0
       \<and> (\<forall>m \<in> set (stderr (convert_agl_to_nem12 cfg now inp (Some f) outp)).
             \<not> is_inconsistency m)"
proof -
  from read_rows_reachable[of cfg "rows f"]
  obtain st where st: "read_rows cfg init_state (rows f) = Inr st"
    and ok: "data_ok cfg (data st)" by blast
  have ws: "\<forall>m \<in> set (warnings st). \<not> is_inconsistency m"
    by (rule read_rows_warnings[OF _ st]) (simp add: init_state_def)
  from write_nmis_total[OF ok, of "\<lparr>written = [record_100 now], errors = []\<rparr>"
      "nmi_details st" "sort (keys (data st))"]
  obtain w where w: "write_nmis cfg (data st) (nmi_details st) (sort (keys (data st)))
        \<lparr>written = [record_100 now], errors = []\<rparr> = Inr w"
    and we: "\<forall>m \<in> set (errors w). \<not> is_inconsistency m" by auto
  show ?thesis
    using h ws we by (auto simp: convert_agl_to_nem12_def Let_def st w)
qed

text \<open>
  Claim C10. Whatever the rows and the configuration, the reader ends without an
  exception, and every bucket it holds has both lists as long as the day has intervals
  and a slot filled; the rendering of such a bucket has as many entries, and its day is
  written as a 300 record. A run on a file with the expected header ends with status 0
  and reports no inconsistent day.
\<close>

theorem buckets_keep_their_length:
  "\<exists>st. read_rows cfg init_state rs = Inr st
     \<and> (\<forall>nmi sfx t dd. find_day (data st) nmi sfx t = Some dd \<longrightarrow>
          0 < INTERVALS_PER_DAY cfg
          \<and> int (length (intervals dd)) = INTERVALS_PER_DAY cfg
          \<and> int (length (quality dd)) = INTERVALS_PER_DAY cfg
          \<and> (\<exists>i < length (intervals dd). intervals dd ! i \<noteq> None)
          \<and> (\<exists>texts quals.
                render_intervals (quality dd) 0 (intervals dd) = Inr (texts, quals)
                \<and> int (length texts) = INTERVALS_PER_DAY cfg)
          \<and> (\<forall>w. \<exists>texts q.
                write_day cfg nmi sfx t dd w =
                  Inr (w\<lparr>written := written w @ [record_300 t texts q]\<rparr>)))
     \<and> (headers_ok (fieldnames f) \<and> rows f = rs \<longrightarrow>
          exit_status (convert_agl_to_nem12 cfg now inp (Some f) outp) = 0
          \<and> (\<forall>m \<in> set (stderr (convert_agl_to_nem12 cfg now inp (Some f) outp)).
                \<not> is_inconsistency m))"
proof -
  from read_rows_reachable[of cfg rs]
  obtain st where st: "read_rows cfg init_state rs = Inr st"
    and ok: "data_ok cfg (data st)" by blast
  have b: "0 < INTERVALS_PER_DAY cfg
          \<and> int (length (intervals dd)) = INTERVALS_PER_DAY cfg
          \<and> int (length (quality dd)) = INTERVALS_PER_DAY cfg
          \<and> (\<exists>i < length (intervals dd). intervals dd ! i \<noteq> None)
          \<and> (\<exists>texts quals.
                render_intervals (quality dd) 0 (intervals dd) = Inr (texts, quals)
                \<and> int (length texts) = INTERVALS_PER_DAY cfg)
          \<and> (\<forall>w. \<exists>texts q.
                write_day cfg nmi sfx t dd w =
                  Inr (w\<lparr>written := written w @ [record_300 t texts q]\<rparr>))"
    if fd: "find_day (data st) nmi sfx t = Some dd" for nmi sfx t dd
  proof -
    from data_okD[OF ok fd] have d: "day_ok cfg dd" .
    then have pos: "0 < INTERVALS_PER_DAY cfg"
      and li: "length (intervals dd) = nat (INTERVALS_PER_DAY cfg)"
      and lq: "length (quality dd) = nat (INTERVALS_PER_DAY cfg)"
      and fl: "\<exists>i < length (intervals dd). intervals dd ! i \<noteq> None"
      unfolding day_ok_def by blast+
    have r: "\<exists>texts quals.
                render_intervals (quality dd) 0 (intervals dd) = Inr (texts, quals)
                \<and> int (length texts) = INTERVALS_PER_DAY cfg"
      using render_intervals_ok[of 0 "intervals dd" "quality dd"] li lq pos by simp
    have w: "\<forall>w. \<exists>texts q.
                write_day cfg nmi sfx t dd w =
                  Inr (w\<lparr>written := written w @ [record_300 t texts q]\<rparr>)"
      using write_day_ok[OF d] by blast
    from pos li lq fl r w show ?thesis by simp
  qed
  have c: "exit_status (convert_agl_to_nem12 cfg now inp (Some f) outp) = 0
          \<and> (\<forall>m \<in> set (stderr (convert_agl_to_nem12 cfg now inp (Some f) outp)).
                \<not> is_inconsistency m)"
    if "headers_ok (fieldnames f)"
    using that by (rule convert_total)
  from st b c show ?thesis by blast
qed

lemma sample_checks:
  "\<not> row_skipped sample_config sample_row"
  "NMI sample_row = Some ''NMI123456''"
  "extracted_suffix sample_row = Some ''E1''"
  "parsed_start sample_row = Some sample_start"
  "ProfileReadValue sample_row = Some ''1.234''"
  "QualityFlag sample_row = Some ''A''"
  by code_simp+

lemma sample_headers: "headers_ok (fieldnames sample_file)" "rows sample_file = [sample_row]"
  by (simp_all add: sample_file_def headers_ok_def expected_headers_def)

theorem buckets_keep_their_length_witness:
  "\<exists>st dd. read_rows sample_config init_state [sample_row] = Inr st
     \<and> find_day (data st) ''NMI123456'' ''E1'' (date_of sample_start) = Some dd
     \<and> int (length (intervals dd)) = INTERVALS_PER_DAY sample_config
     \<and> (\<exists>texts q.
           write_day sample_config ''NMI123456'' ''E1'' (date_of sample_start) dd no_output =
             Inr (no_output\<lparr>written := written no_output
                    @ [record_300 (date_of sample_start) texts q]\<rparr>))
     \<and> headers_ok (fieldnames sample_file) \<and> rows sample_file = [sample_row]
     \<and> exit_status (convert_agl_to_nem12 sample_config sample_start ''in.csv''
                       (Some sample_file) ''out.csv'') = 0
     \<and> \<not> (\<exists>m \<in> set (stderr (convert_agl_to_nem12 sample_config sample_start ''in.csv''
                       (Some sample_file) ''out.csv'')). is_inconsistency m)"
proof -
  from buckets_keep_their_length[of sample_config "[sample_row]" sample_file sample_start
      "''in.csv''" "''out.csv''"]
  obtain st where st: "read_rows sample_config init_state [sample_row] = Inr st"
    and b: "\<And>nmi sfx t dd. find_day (data st) nmi sfx t = Some dd \<Longrightarrow>
          int (length (intervals dd)) = INTERVALS_PER_DAY sample_config
          \<and> (\<forall>w. \<exists>texts q.
                write_day sample_config nmi sfx t dd w =
                  Inr (w\<lparr>written := written w @ [record_300 t texts q]\<rparr>))"
    and c: "headers_ok (fieldnames sample_file) \<and> rows sample_file = [sample_row] \<longrightarrow>
          exit_status (convert_agl_to_nem12 sample_config sample_start ''in.csv''
                       (Some sample_file) ''out.csv'') = 0
          \<and> (\<forall>m \<in> set (stderr (convert_agl_to_nem12 sample_config sample_start ''in.csv''
                       (Some sample_file) ''out.csv'')). \<not> is_inconsistency m)"
    by blast
  from process_row_stores[OF data_ok_init sample_checks(1) sample_checks(2) sample_checks(3)
      sample_checks(4) sample_checks(5) sample_checks(6)]
  obtain st' dd where p: "process_row sample_config init_state sample_row = Inr st'"
    and fd': "find_day (data st') ''NMI123456'' ''E1'' (date_of sample_start) = Some dd"
    by blast
  from st p have "st' = st" by simp
  with fd' have fd: "find_day (data st) ''NMI123456'' ''E1'' (date_of sample_start) = Some dd"
    by simp
  from b[OF fd] c sample_headers st fd show ?thesis by blast
qed




subsection \<open>The sample scenario\<close>

lemma replicate_48: "replicate 48 x = x # x # replicate 46 x"
proof -
  have "(48::nat) = Suc (Suc 46)" by simp
  then show ?thesis by (simp only: replicate.simps)
qed

lemma sample_config_fields:
  "INTERVAL_LENGTH sample_config = 30" "INTERVALS_PER_DAY sample_config = 48"
  by (simp_all add: sample_config_def)

lemma sample_index:
  "get_interval_index sample_config (Some sample_start) (INTERVAL_LENGTH sample_config) = Some 1"
  by (simp add: get_interval_index_def sample_config_def sample_start_def)

lemma sample_parse: "parse_agl_datetime ''01/06/2024 12:30:00 AM'' = Some sample_start"
  by code_simp

lemma sample_suffix: "get_suffix_from_register ''E1#E1'' = (Some ''E1'', True)"
  by code_simp

lemma sample_kind: "mdm_data_stream_id ''E1'' = ''CONSUMPTION''"
  by code_simp

lemma sample_date: "format_nem12_date (2024, 6, 1) = ''20240601''"
  by code_simp

lemma sample_value: "py_float vs = Some v \<Longrightarrow> value_and_quality vs ''A'' = (v, ''A'')"
  by (simp add: value_and_quality_def get_default_def QUALITY_MAP_def)

lemma sample_store:
  "store_reading sample_config [] ''NMI123456'' ''E1'' (2024, 6, 1) 1 v ''A'' =
     Inr [(''NMI123456'', [(''E1'', [((2024, 6, 1),
            \<lparr>intervals = None # Some v # replicate 46 None,
             quality = [] # ''A'' # replicate 46 []\<rparr>)])])]"
  by (simp add: store_reading_def get_default_def new_day_data_def sample_config_def
        set_item_def py_index_def replicate_48 Let_def)

text \<open>The sample row with any value that \<^verbatim>\<open>float\<close> reads.\<close>

lemma sample_read:
  assumes "py_float vs = Some v"
  shows "read_rows sample_config init_state [sample_row\<lparr>ProfileReadValue := Some vs\<rparr>] =
     Inr \<lparr>data = [(''NMI123456'', [(''E1'', [((2024, 6, 1),
            \<lparr>intervals = None # Some v # replicate 46 None,
             quality = [] # ''A'' # replicate 46 []\<rparr>)])])],
          nmi_details = [(''NMI123456'', [(''E1'',
            \<lparr>NMISuffix = ''E1'', MDMDataStreamIdentifier = ''CONSUMPTION'',
             MeterSerialNumber = ''DEV1'', UOM = ''kWh'', IntervalLength = 30,
             NextScheduledReadDate = []\<rparr>)])],
          warned_suffixes = {}, row_count = 1, processed_rows = 1, skipped_rows = 0,
          warnings = []\<rparr>"
proof -
  let ?r = "sample_row\<lparr>ProfileReadValue := Some vs\<rparr>"
  have f: "NMI ?r = Some ''NMI123456''" "''NMI123456'' \<noteq> []"
    "RegisterCode ?r = Some ''E1#E1''" "''E1#E1'' \<noteq> []"
    "StartDate ?r = Some ''01/06/2024 12:30:00 AM''" "''01/06/2024 12:30:00 AM'' \<noteq> []"
    "ProfileReadValue ?r = Some vs"
    "QualityFlag ?r = Some ''A''" "''A'' \<noteq> []"
    "DeviceNumber ?r = Some ''DEV1''" "''DEV1'' \<noteq> []"
    by (simp_all add: sample_row_def)
  have d: "date_of sample_start = (2024, 6, 1)" by (simp add: date_of_def sample_start_def)
  show ?thesis
    unfolding read_rows.simps process_row_accepted[OF f sample_parse sample_index sample_suffix]
    by (simp add: init_state_def d sample_value[OF assms] sample_store record_details_def
          counted_def get_default_def keys_def sample_kind DEFAULT_UOM_def
          sample_config_fields Let_def)
qed

lemma sample_300:
  "write_day sample_config ''NMI123456'' ''E1'' (2024, 6, 1)
      \<lparr>intervals = None # Some v # replicate 46 None,
       quality = [] # ''A'' # replicate 46 []\<rparr> w =
     Inr (w\<lparr>written := written w @
            [Int_cell 300 # Str_cell ''20240601'' # Str_cell ''0.000'' # Str_cell (format_3f v)
               # replicate 46 (Str_cell ''0.000'')
               @ [Str_cell ''S'', Str_cell [], Str_cell [], Str_cell []]]\<rparr>)"
proof -
  let ?dd = "\<lparr>intervals = None # Some v # replicate 46 None,
       quality = [] # ''A'' # replicate 46 []\<rparr>"
  have l: "length (intervals ?dd) = nat (INTERVALS_PER_DAY sample_config)"
    "length (quality ?dd) = nat (INTERVALS_PER_DAY sample_config)"
    by (simp_all add: sample_config_def)
  have f: "\<exists>i < length (intervals ?dd). intervals ?dd ! i \<noteq> None"
    by (intro exI[of _ 1]) simp
  have q: "determine_day_quality (''S'' # ''A'' # replicate 46 ''S'') = ''S''"
    by (simp add: determine_day_quality_def Let_def)
  show ?thesis
    unfolding write_day_filled[OF l f]
    by (simp add: record_300_def slot_text_def slot_quality_def sample_date q
          zip_replicate DEFAULT_QUALITY_def)
qed

lemma sample_output:
  assumes "py_float vs = Some v"
  shows "convert_agl_to_nem12 sample_config now inp (Some (sample_file_with vs)) outp =
     \<lparr>exit_status = 0,
      stdout = [Reading_from inp, Expecting 48 30, Finished_reading 1 1, Found_NMIs 1,
                Writing_to outp, Success outp],
      stderr = [],
      output_file = Some
        [record_100 now,
         [Int_cell 200, Str_cell ''NMI123456'', Str_cell ''E1'', Str_cell [], Str_cell ''E1'',
          Str_cell ''CONSUMPTION'', Str_cell ''DEV1'', Str_cell ''kWh'', Int_cell 30,
          Str_cell []],
         Int_cell 300 # Str_cell ''20240601'' # Str_cell ''0.000'' # Str_cell (format_3f v)
           # replicate 46 (Str_cell ''0.000'')
           @ [Str_cell ''S'', Str_cell [], Str_cell [], Str_cell []],
         [Int_cell 900]]\<rparr>"
  by (simp add: convert_agl_to_nem12_def sample_file_with_def headers_ok_def
        expected_headers_def sample_read[OF assms] Let_def keys_def
        write_nmi_def write_suffix_def get_default_def sample_300 record_200_def
        sample_config_fields del: read_rows.simps)

lemma sample_file_with_value: "sample_file = sample_file_with ''1.234''"
  by (simp add: sample_file_def sample_file_with_def sample_row_def)

text \<open>
  Claim C8, as stated: the day record of the sample scenario ends with the day quality
  \<^verbatim>\<open>A\<close>. The record has 54 cells, the day quality is the cell after the 48 slots, and
  the run puts \<^verbatim>\<open>S\<close> there: the 47 unfilled slots count with the code \<^verbatim>\<open>S\<close>,
  which the aggregate ranks above \<^verbatim>\<open>A\<close>.
\<close>

theorem sample_day_quality_is_not_A:
  "\<exists>out. output_file (convert_agl_to_nem12 sample_config sample_start ''in.csv''
                        (Some sample_file) ''out.csv'') = Some out
     \<and> length out = 4 \<and> length (out ! 2) = 54
     \<and> take 4 (out ! 2)
          = [Int_cell 300, Str_cell ''20240601'', Str_cell ''0.000'', Str_cell ''1.234'']
     \<and> out ! 2 ! 50 = Str_cell ''S''
     \<and> out ! 2 ! 50 \<noteq> Str_cell ''A''"
  by (simp add: sample_file_with_value sample_output[OF py_float_1234] format_1234 nth_append)

text \<open>
  Claim C8, amended: for the single row with meter NMI123456, register E1#E1, timestamp
  01/06/2024 12:30:00 AM, value 1.234, quality A, serial DEV1 and intervals of 30
  minutes, the reading is placed at slot 1 of the day 2024-06-01 of suffix E1, with the
  double nearest to 1.234 and quality A; the output is the 100 record, the 200 record of
  the stream, the day record 300, 20240601, 0.000, 1.234, 46 more 0.000 and the day
  quality \<^verbatim>\<open>S\<close>, and the 900 record.
\<close>

theorem sample_scenario:
  "(\<exists>st. read_rows sample_config init_state [sample_row] = Inr st
       \<and> find_day (data st) ''NMI123456'' ''E1'' (2024, 6, 1) =
           Some \<lparr>intervals = None # py_float ''1.234'' # replicate 46 None,
                 quality = [] # ''A'' # replicate 46 []\<rparr>)
   \<and> map_option format_3f (py_float ''1.234'') = Some ''1.234''
   \<and> get_interval_index sample_config (parse_agl_datetime ''01/06/2024 12:30:00 AM'')
        (INTERVAL_LENGTH sample_config) = Some 1
   \<and> convert_agl_to_nem12 sample_config now inp (Some sample_file) outp =
       \<lparr>exit_status = 0,
        stdout = [Reading_from inp, Expecting 48 30, Finished_reading 1 1, Found_NMIs 1,
                  Writing_to outp, Success outp],
        stderr = [],
        output_file = Some
          [record_100 now,
           [Int_cell 200, Str_cell ''NMI123456'', Str_cell ''E1'', Str_cell [],
            Str_cell ''E1'', Str_cell ''CONSUMPTION'', Str_cell ''DEV1'', Str_cell ''kWh'',
            Int_cell 30, Str_cell []],
           Int_cell 300 # Str_cell ''20240601'' # Str_cell ''0.000'' # Str_cell ''1.234''
             # replicate 46 (Str_cell ''0.000'')
             @ [Str_cell ''S'', Str_cell [], Str_cell [], Str_cell []],
           [Int_cell 900]]\<rparr>"
proof -
  have r: "sample_row\<lparr>ProfileReadValue := Some ''1.234''\<rparr> = sample_row"
    by (simp add: sample_row_def)
  have a: "\<exists>st. read_rows sample_config init_state [sample_row] = Inr st
       \<and> find_day (data st) ''NMI123456'' ''E1'' (2024, 6, 1) =
           Some \<lparr>intervals = None # py_float ''1.234'' # replicate 46 None,
                 quality = [] # ''A'' # replicate 46 []\<rparr>"
    using sample_read[OF py_float_1234]
    by (simp add: r find_day_def get_default_def py_float_1234 del: read_rows.simps)
  have b: "map_option format_3f (py_float ''1.234'') = Some ''1.234''"
    by (simp add: py_float_1234 format_1234)
  have c: "get_interval_index sample_config (parse_agl_datetime ''01/06/2024 12:30:00 AM'')
        (INTERVAL_LENGTH sample_config) = Some 1"
    unfolding sample_parse by (rule sample_index)
  from a b c sample_output[OF py_float_1234, of now inp outp] show ?thesis
    by (simp add: sample_file_with_value format_1234 del: read_rows.simps)
qed

subsection \<open>The rendering of a filled slot\<close>














end
